theory Spec2Isabelle
  imports Complex_Main "HOL-Library.Sublist" "HOL-Library.AList"
begin

section \<open>Python values\<close>

text \<open>
  Python floats are modelled by \<^typ>\<open>real\<close>: comparisons are the order of the reals and
  arithmetic is exact, so rounding error, infinities and NaN are outside the model. The
  one place where the rounding of a float operation decides a result of the program is the
  quotient that \<open>calculate_buy_quantity\<close> rounds to a few decimal places; that division
  is modelled with its rounding to double precision (\<open>float_div\<close> below).
  Python ints are \<^typ>\<open>int\<close>, strings are \<^typ>\<open>string\<close> (ASCII), \<open>None\<close> in an
  optional slot is \<^const>\<open>None\<close>.
\<close>

datatype error =
    TypeError
  | AttributeError
  | ZeroDivisionError
  | BinanceAPIError
  | TradingError
  | StopLossError

subsection \<open>String methods used by the program\<close>

definition upper_char :: "char \<Rightarrow> char" where
  "upper_char c =
     (case map_of (zip ''abcdefghijklmnopqrstuvwxyz'' ''ABCDEFGHIJKLMNOPQRSTUVWXYZ'') c of
        None \<Rightarrow> c
      | Some u \<Rightarrow> u)"

definition upper :: "string \<Rightarrow> string" where
  \<comment> \<open>\<open>str.upper()\<close> on ASCII text\<close>
  "upper s = map upper_char s"

definition endswith :: "string \<Rightarrow> string \<Rightarrow> bool" where
  \<comment> \<open>\<open>s.endswith(suf)\<close>\<close>
  "endswith s suf \<longleftrightarrow> length suf \<le> length s \<and> drop (length s - length suf) s = suf"

definition startswith :: "string \<Rightarrow> string \<Rightarrow> bool" where
  "startswith s pre \<longleftrightarrow> take (length pre) s = pre"

fun str_in :: "string \<Rightarrow> string \<Rightarrow> bool" where
  \<comment> \<open>\<open>pat in s\<close> on strings: \<open>pat\<close> occurs as a contiguous substring of \<open>s\<close>\<close>
  "str_in pat [] = (pat = [])"
| "str_in pat (c # cs) = (startswith (c # cs) pat \<or> str_in pat cs)"

function str_replace_del :: "string \<Rightarrow> string \<Rightarrow> string" where
  \<comment> \<open>\<open>s.replace(pat, "")\<close>: every occurrence of \<open>pat\<close>, left to right, is removed\<close>
  "str_replace_del pat s =
     (if s = [] then []
      else if pat \<noteq> [] \<and> startswith s pat then str_replace_del pat (drop (length pat) s)
      else hd s # str_replace_del pat (tl s))"
  by pat_completeness auto
termination
  by (relation "measure (\<lambda>(pat, s). length s)") (auto simp: neq_Nil_conv)

declare str_replace_del.simps [simp del]

definition round_half_even :: "real \<Rightarrow> int" where
  "round_half_even x =
     (let f = \<lfloor>x\<rfloor>; r = x - of_int f
      in if r < 1 / 2 then f else if r > 1 / 2 then f + 1 else if even f then f else f + 1)"

definition py_round :: "real \<Rightarrow> nat \<Rightarrow> real" where
  \<comment> \<open>\<open>round(x, ndigits)\<close> on the value of the float \<open>x\<close>: the nearest multiple of
      \<open>10 ** -ndigits\<close>, ties to even (the float nearest to that decimal is what Python
      returns)\<close>
  "py_round x ndigits = of_int (round_half_even (x * 10 ^ ndigits)) / 10 ^ ndigits"

function binade_up :: "real \<Rightarrow> int \<Rightarrow> int" where
  "binade_up x e = (if x < 2 then e else binade_up (x / 2) (e + 1))"
  by pat_completeness auto
termination
proof (relation "measure (\<lambda>(x, e). nat \<lceil>x\<rceil>)")
  show "wf (measure (\<lambda>(x, e). nat \<lceil>x\<rceil>))" by simp
next
  fix x :: real and e :: int
  assume "\<not> x < 2"
  then have "x / 2 + 1 \<le> x" by simp
  then have "\<lceil>x / 2\<rceil> < \<lceil>x\<rceil>" by linarith
  moreover have "0 < \<lceil>x\<rceil>" using \<open>\<not> x < 2\<close> by linarith
  ultimately show "((x / 2, e + 1), (x, e)) \<in> measure (\<lambda>(x, e). nat \<lceil>x\<rceil>)" by simp
qed

function binade_down :: "real \<Rightarrow> int \<Rightarrow> int" where
  "binade_down x e = (if x \<le> 0 \<or> 1 \<le> x then e else binade_down (2 * x) (e - 1))"
  by pat_completeness auto
termination
proof (relation "measure (\<lambda>(x, e). nat \<lceil>1 / x\<rceil>)")
  show "wf (measure (\<lambda>(x, e). nat \<lceil>1 / x\<rceil>))" by simp
next
  fix x :: real and e :: int
  assume a: "\<not> (x \<le> 0 \<or> 1 \<le> x)"
  then have x: "0 < x" "x < 1" by auto
  then have "1 < 1 / x" by simp
  then have "1 / (2 * x) + 1 / 2 < 1 / x" using x by (simp add: field_simps)
  moreover have "2 \<le> \<lceil>1 / x\<rceil>" using \<open>1 < 1 / x\<close> by linarith
  ultimately have "\<lceil>1 / (2 * x)\<rceil> < \<lceil>1 / x\<rceil>" by linarith
  then show "((2 * x, e - 1), (x, e)) \<in> measure (\<lambda>(x, e). nat \<lceil>1 / x\<rceil>)"
    using \<open>2 \<le> \<lceil>1 / x\<rceil>\<close> x by simp
qed

declare binade_up.simps [simp del] binade_down.simps [simp del]

definition pow2 :: "int \<Rightarrow> real" where
  "pow2 e = (if 0 \<le> e then 2 ^ nat e else 1 / 2 ^ nat (- e))"

definition binade :: "real \<Rightarrow> int" where
  \<comment> \<open>the exponent \<open>e\<close> with \<open>2 ** e <= x < 2 ** (e + 1)\<close>, for a positive \<open>x\<close>\<close>
  "binade x = (if 1 \<le> x then binade_up x 0 else binade_down x 0)"

definition to_float :: "real \<Rightarrow> real" where
  \<comment> \<open>the double nearest to \<open>x\<close>, ties to even: 53 significant bits; the bounds of the
      exponent range (overflow, subnormal numbers) are not modelled\<close>
  "to_float x =
     (if x = 0 then 0
      else let e = binade \<bar>x\<bar> - 52
           in of_int (round_half_even (x / pow2 e)) * pow2 e)"

definition float_div :: "real \<Rightarrow> real \<Rightarrow> real" where
  \<comment> \<open>\<open>a / b\<close> on floats, for \<open>b\<close> not zero: the exact quotient rounded to a double\<close>
  "float_div a b = to_float (a / b)"

definition dict_get :: "('k \<times> 'v) list \<Rightarrow> 'k \<Rightarrow> 'v \<Rightarrow> 'v" where
  \<comment> \<open>\<open>d.get(k, default)\<close> on a dict kept as the list of its items\<close>
  "dict_get d k dflt = (case map_of d k of None \<Rightarrow> dflt | Some v \<Rightarrow> v)"

definition dict_of_items :: "('k \<times> 'v) list \<Rightarrow> ('k \<times> 'v) list" where
  \<comment> \<open>a dict display \<open>{k1: v1, k2: v2, ...}\<close>: the items are stored left to right, and a
      key that occurs again replaces the value stored for it\<close>
  "dict_of_items items = fold (\<lambda>kv d. AList.update (fst kv) (snd kv) d) items []"

subsection \<open>Values returned by \<open>json.loads\<close>\<close>

datatype json =
    JNull
  | JBool bool
  | JNum real
  | JStr string
  | JArr "json list"
  | JObj "(string \<times> json) list"

definition py_iter :: "json \<Rightarrow> error + json list" where
  \<comment> \<open>\<open>for coin in v\<close>: a list yields its elements, a string its characters, a dict
      its keys (the pairs of \<open>JObj\<close> are the dict's items); anything else is not iterable\<close>
  "py_iter v =
     (case v of
        JArr xs \<Rightarrow> Inr xs
      | JStr s \<Rightarrow> Inr (map (\<lambda>c. JStr [c]) s)
      | JObj kvs \<Rightarrow> Inr (map (\<lambda>kv. JStr (fst kv)) kvs)
      | _ \<Rightarrow> Inl TypeError)"

section \<open>config.py\<close>

record trading_config =
  stop_loss_percentage :: real
  trade_amount_usdt :: real
  supported_coins :: "string list"
  trade_amounts :: "(string \<times> real) list"
  max_open_positions :: int
  max_daily_trades :: int
  daily_loss_limit :: real

definition get_trade_symbol :: "string \<Rightarrow> string" where
  "get_trade_symbol coin =
     (if endswith (upper coin) ''USDT'' then upper coin else upper coin @ ''USDT'')"

definition is_coin_supported :: "trading_config \<Rightarrow> string \<Rightarrow> bool" where
  "is_coin_supported cfg coin \<longleftrightarrow> upper coin \<in> set (map upper (supported_coins cfg))"

definition default_config :: trading_config where
  \<comment> \<open>the values \<open>TradingConfig.__init__\<close> takes when no environment variable is set\<close>
  "default_config =
     \<lparr> stop_loss_percentage = 1 / 10,
       trade_amount_usdt = 10,
       supported_coins = [''BTC'', ''ETH'', ''BNB'', ''ADA'', ''SOL''],
       trade_amounts = [(''BTCUSDT'', 10), (''ETHUSDT'', 10), (''BNBUSDT'', 10),
                        (''ADAUSDT'', 10), (''SOLUSDT'', 10)],
       max_open_positions = 5,
       max_daily_trades = 20,
       daily_loss_limit = 100 \<rparr>"

section \<open>simple\_storage.py\<close>

datatype pos_status = Open | Closed | Stopped

datatype side = BUY | SELL

text \<open>
  A position and an order are JSON objects in the store's files; the records below have
  one field per key the program writes. A key that is written only later in the life of
  the object is an option. Timestamps are instants of a clock counted in \<^typ>\<open>nat\<close>
  (the program writes ISO strings and compares them as strings).
\<close>

record position =
  pos_id :: int
  pos_symbol :: string
  pos_quantity :: real
  pos_entry_price :: real
  pos_current_price :: real
  pos_stop_loss_price :: real
  pos_stop_loss_percentage :: real
  pos_status :: pos_status
  pos_is_monitoring :: bool
  pos_entry_order_id :: int
  pos_news_item_id :: "int option"
  pos_unrealized_pnl :: "real option"
  pos_realized_pnl :: "real option"
  pos_exit_order_id :: "int option"
  pos_opened_at :: nat
  pos_updated_at :: nat
  pos_closed_at :: "nat option"

record trading_order =
  ord_id :: int
  ord_binance_order_id :: int
  ord_symbol :: string
  ord_side :: side
  ord_quantity :: real
  ord_price :: real
  ord_status :: string
  ord_executed_quantity :: real
  ord_executed_price :: real
  ord_position_id :: "int option"
  ord_news_item_id :: "int option"
  ord_created_at :: nat
  ord_updated_at :: nat

record data_store =
  positions :: "position list"
  orders :: "trading_order list"

definition generate_id :: "int list \<Rightarrow> int" where
  \<comment> \<open>\<open>_generate_id\<close>, on the ids of the stored records\<close>
  "generate_id ids = (if ids = [] then 1 else Max (set ids) + 1)"

definition sorted_desc :: "('a \<Rightarrow> nat) \<Rightarrow> 'a list \<Rightarrow> 'a list" where
  \<comment> \<open>\<open>sorted(xs, key=k, reverse=True)\<close>: stable, equal keys keep their order\<close>
  "sorted_desc k xs = rev (sort_key k (rev xs))"

definition get_open_positions :: "data_store \<Rightarrow> position list" where
  "get_open_positions st = filter (\<lambda>p. pos_status p = Open) (positions st)"

definition get_all_positions :: "data_store \<Rightarrow> nat \<Rightarrow> position list" where
  "get_all_positions st limit = take limit (sorted_desc pos_opened_at (positions st))"

definition get_trading_orders :: "data_store \<Rightarrow> nat \<Rightarrow> trading_order list" where
  "get_trading_orders st limit = take limit (sorted_desc ord_created_at (orders st))"

definition save_trading_order :: "nat \<Rightarrow> trading_order \<Rightarrow> data_store \<Rightarrow> int \<times> data_store" where
  \<comment> \<open>the id and the two timestamps of the argument are overwritten\<close>
  "save_trading_order now od st =
     (let i = generate_id (map ord_id (orders st));
          od' = od\<lparr>ord_id := i, ord_created_at := now, ord_updated_at := now\<rparr>
      in (i, st\<lparr>orders := orders st @ [od']\<rparr>))"

definition save_position :: "nat \<Rightarrow> position \<Rightarrow> data_store \<Rightarrow> int \<times> data_store" where
  "save_position now p st =
     (let i = generate_id (map pos_id (positions st));
          p' = p\<lparr>pos_id := i, pos_opened_at := now, pos_updated_at := now\<rparr>
      in (i, st\<lparr>positions := positions st @ [p']\<rparr>))"

fun update_first :: "('a \<Rightarrow> bool) \<Rightarrow> ('a \<Rightarrow> 'a) \<Rightarrow> 'a list \<Rightarrow> 'a list" where
  \<comment> \<open>the loop of the \<open>update_*\<close> methods: the first matching record is updated, then \<open>break\<close>\<close>
  "update_first P f [] = []"
| "update_first P f (x # xs) = (if P x then f x # xs else x # update_first P f xs)"

definition update_trading_order ::
  "nat \<Rightarrow> int \<Rightarrow> (trading_order \<Rightarrow> trading_order) \<Rightarrow> data_store \<Rightarrow> data_store" where
  "update_trading_order now oid updates st =
     st\<lparr>orders := update_first (\<lambda>od. ord_id od = oid)
                     (\<lambda>od. (updates od)\<lparr>ord_updated_at := now\<rparr>) (orders st)\<rparr>"

definition apply_updates ::
  "nat \<Rightarrow> (position \<Rightarrow> position) \<Rightarrow> pos_status option \<Rightarrow> position \<Rightarrow> position" where
  \<comment> \<open>what \<open>update_position\<close> does to the record it has found. \<open>updates\<close> is the effect
      of \<open>position.update(updates)\<close>; \<open>upd_status\<close> is \<open>updates.get('status')\<close>, which
      decides whether \<open>closed_at\<close> is written.\<close>
  "apply_updates now updates upd_status p =
     (let p1 = (updates p)\<lparr>pos_updated_at := now\<rparr>
      in if upd_status = Some Closed \<or> upd_status = Some Stopped
         then p1\<lparr>pos_closed_at := Some now\<rparr> else p1)"

definition load_positions :: "data_store \<Rightarrow> position list" where
  \<comment> \<open>\<open>self._load_json(self.positions_file)\<close>\<close>
  "load_positions st = positions st"

definition save_positions :: "position list \<Rightarrow> data_store \<Rightarrow> data_store" where
  \<comment> \<open>\<open>self._save_json(self.positions_file, positions)\<close>: the list replaces the file\<close>
  "save_positions ps st = st\<lparr>positions := ps\<rparr>"

definition write_back ::
  "nat \<Rightarrow> int \<Rightarrow> (position \<Rightarrow> position) \<Rightarrow> pos_status option \<Rightarrow> position list \<Rightarrow>
   data_store \<Rightarrow> data_store" where
  \<comment> \<open>\<open>update_position\<close> after its load: the loop over the loaded list, then the save\<close>
  "write_back now pid updates upd_status loaded st =
     save_positions
       (update_first (\<lambda>p. pos_id p = pid) (apply_updates now updates upd_status) loaded) st"

definition update_position ::
  "nat \<Rightarrow> int \<Rightarrow> (position \<Rightarrow> position) \<Rightarrow> pos_status option \<Rightarrow> data_store \<Rightarrow> data_store" where
  \<comment> \<open>load, loop and save with nothing in between\<close>
  "update_position now pid updates upd_status st =
     write_back now pid updates upd_status (load_positions st) st"

section \<open>binance\_client.py\<close>

text \<open>
  The client of the program is \<open>MockBinanceClient\<close>. Its prices vary by
  \<open>random.uniform(-0.02, 0.02)\<close>; the model takes the values that call returns, in call
  order, as the field \<open>variations\<close>, and counts the calls made so far in \<open>draws\<close>.
  Of an order the fields the program reads are kept.
\<close>

record mock_order =
  mo_symbol :: string
  mo_orderId :: int
  mo_price :: real
  mo_origQty :: real
  mo_executedQty :: real
  mo_status :: string
  mo_side :: side

record mock_client =
  account_balance :: "(string \<times> real) list"
  client_orders :: "(int \<times> mock_order) list"
  order_id_counter :: int
  mock_prices :: "(string \<times> real) list"
  variations :: "nat \<Rightarrow> real"
  draws :: nat

definition get_symbol_ticker :: "string \<Rightarrow> mock_client \<Rightarrow> (error + real) \<times> mock_client" where
  "get_symbol_ticker symbol c =
     (case map_of (mock_prices c) symbol of
        None \<Rightarrow> (Inl BinanceAPIError, c)
      | Some base_price \<Rightarrow>
          (Inr (base_price * (1 + variations c (draws c))), c\<lparr>draws := draws c + 1\<rparr>))"

definition create_order ::
  "string \<Rightarrow> side \<Rightarrow> real \<Rightarrow> mock_client \<Rightarrow> (error + mock_order) \<times> mock_client" where
  \<comment> \<open>\<open>create_order\<close> with \<open>type="MARKET"\<close>, the only type the trading core submits. Every
      exception of the body is raised again as \<open>BinanceAPIError\<close>; what the body wrote
      to the client before it stays written.\<close>
  "create_order symbol sd quantity c =
     (case get_symbol_ticker symbol c of
        (Inl e, c1) \<Rightarrow> (Inl BinanceAPIError, c1)
      | (Inr execution_price, c1) \<Rightarrow>
          (let order_id = order_id_counter c1;
               c2 = c1\<lparr>order_id_counter := order_id_counter c1 + 1\<rparr>;
               base_asset = str_replace_del ''USDT'' symbol;
               quote_asset = ''USDT'';
               bal = account_balance c2;
               order = \<lparr> mo_symbol = symbol, mo_orderId = order_id, mo_price = execution_price,
                         mo_origQty = quantity, mo_executedQty = quantity,
                         mo_status = ''FILLED'', mo_side = sd \<rparr>
           in case sd of
                BUY \<Rightarrow>
                  (let cost = quantity * execution_price
                   in if dict_get bal quote_asset 0 < cost then (Inl BinanceAPIError, c2)
                      else (case map_of bal quote_asset of
                              None \<Rightarrow> (Inl BinanceAPIError, c2)
                            | Some q \<Rightarrow>
                                (let bal1 = AList.update quote_asset (q - cost) bal;
                                     bal2 = AList.update base_asset
                                              (dict_get bal1 base_asset 0 + quantity) bal1
                                 in (Inr order,
                                     c2\<lparr>account_balance := bal2,
                                        client_orders :=
                                          AList.update order_id order (client_orders c2)\<rparr>))))
              | SELL \<Rightarrow>
                  (if dict_get bal base_asset 0 < quantity then (Inl BinanceAPIError, c2)
                   else (case map_of bal base_asset of
                           None \<Rightarrow> (Inl BinanceAPIError, c2)
                         | Some b \<Rightarrow>
                             (let bal1 = AList.update base_asset (b - quantity) bal;
                                  proceeds = quantity * execution_price;
                                  bal2 = AList.update quote_asset
                                           (dict_get bal1 quote_asset 0 + proceeds) bal1
                              in (Inr order,
                                  c2\<lparr>account_balance := bal2,
                                     client_orders :=
                                       AList.update order_id order (client_orders c2)\<rparr>))))))"

definition initial_client :: "(nat \<Rightarrow> real) \<Rightarrow> mock_client" where
  \<comment> \<open>\<open>MockBinanceClient.__init__\<close>\<close>
  "initial_client vs =
     \<lparr> account_balance = [(''USDT'', 1000), (''BTC'', 0), (''ETH'', 0), (''BNB'', 0),
                           (''ADA'', 0), (''SOL'', 0)],
       client_orders = [],
       order_id_counter = 1,
       mock_prices = [(''BTCUSDT'', 45000), (''ETHUSDT'', 2800), (''BNBUSDT'', 350),
                      (''ADAUSDT'', 85 / 100), (''SOLUSDT'', 95)],
       variations = vs,
       draws = 0 \<rparr>"

subsection \<open>\<open>BinanceAPIWrapper\<close>\<close>

definition get_balance :: "mock_client \<Rightarrow> string \<Rightarrow> error + real" where
  \<comment> \<open>the first balance of the account whose asset is \<open>asset\<close>, \<open>0.0\<close> when there is none\<close>
  "get_balance c asset = Inr (dict_get (account_balance c) asset 0)"

definition get_price :: "string \<Rightarrow> mock_client \<Rightarrow> (error + real) \<times> mock_client" where
  "get_price symbol c =
     (case get_symbol_ticker symbol c of
        (Inl e, c1) \<Rightarrow> (Inl BinanceAPIError, c1)
      | (Inr price, c1) \<Rightarrow> (Inr price, c1))"

definition create_market_buy_order ::
  "string \<Rightarrow> real \<Rightarrow> mock_client \<Rightarrow> (error + mock_order) \<times> mock_client" where
  "create_market_buy_order symbol quantity c =
     (case create_order symbol BUY quantity c of
        (Inl e, c1) \<Rightarrow> (Inl BinanceAPIError, c1)
      | (Inr order, c1) \<Rightarrow> (Inr order, c1))"

definition create_market_sell_order ::
  "string \<Rightarrow> real \<Rightarrow> mock_client \<Rightarrow> (error + mock_order) \<times> mock_client" where
  "create_market_sell_order symbol quantity c =
     (case create_order symbol SELL quantity c of
        (Inl e, c1) \<Rightarrow> (Inl BinanceAPIError, c1)
      | (Inr order, c1) \<Rightarrow> (Inr order, c1))"

definition quantity_precision :: "string \<Rightarrow> nat" where
  \<comment> \<open>the \<open>ndigits\<close> that \<open>calculate_buy_quantity\<close> rounds to\<close>
  "quantity_precision symbol =
     (if str_in ''BTC'' symbol then 6 else if str_in ''ETH'' symbol then 5 else 4)"

definition calculate_buy_quantity ::
  "string \<Rightarrow> real \<Rightarrow> mock_client \<Rightarrow> (error + real) \<times> mock_client" where
  \<comment> \<open>the division raises \<open>ZeroDivisionError\<close> on a price of zero; like a failed price
      lookup it leaves as \<open>BinanceAPIError\<close>\<close>
  "calculate_buy_quantity symbol usdt_amount c =
     (case get_price symbol c of
        (Inl e, c1) \<Rightarrow> (Inl BinanceAPIError, c1)
      | (Inr price, c1) \<Rightarrow>
          (if price = 0 then (Inl BinanceAPIError, c1)
           else (Inr (py_round (float_div usdt_amount price) (quantity_precision symbol)),
                 c1)))"

section \<open>trading\_strategy.py: signals\<close>

datatype action = Buy | Sell | Hold

datatype reasoning =
    Neutral_for string
  | Positive_for real string
  | Negative_for real string

record trading_signal =
  sig_symbol :: string
  sig_action :: action
  sig_confidence :: real
  sig_sentiment :: string
  sig_news_id :: "int option"
  sig_reasoning :: reasoning

text \<open>
  A news event is a dict; \<^const>\<open>None\<close> in a field is an absent key, for which
  \<open>news_data.get\<close> returns its default.
\<close>

record news_data =
  nd_id :: "int option"
  nd_sentiment :: "string option"
  nd_sentiment_score :: "real option"
  nd_confidence :: "real option"
  nd_mentioned_coins :: "string option"

definition min_confidence :: real where
  "min_confidence = 6 / 10"

definition sentiment_threshold :: real where
  "sentiment_threshold = 3 / 10"

definition has_open_position :: "data_store \<Rightarrow> string \<Rightarrow> bool" where
  "has_open_position st symbol \<longleftrightarrow> list_ex (\<lambda>p. pos_symbol p = symbol) (get_open_positions st)"

definition coin_signal ::
  "data_store \<Rightarrow> string \<Rightarrow> real \<Rightarrow> real \<Rightarrow> int option \<Rightarrow> string \<Rightarrow> trading_signal option" where
  \<comment> \<open>one pass through the body of the loop for a supported coin (a string)\<close>
  "coin_signal st sentiment sentiment_score confidence nid coin =
     (let symbol = get_trade_symbol coin;
          (act, reason) =
            (if sentiment = ''positive'' \<and> sentiment_score > sentiment_threshold
             then (Buy, Positive_for sentiment_score coin)
             else if sentiment = ''negative'' \<and> sentiment_score < - sentiment_threshold
             then (if has_open_position st symbol
                   then (Sell, Negative_for sentiment_score coin)
                   else (Hold, Neutral_for coin))
             else (Hold, Neutral_for coin))
      in if act \<noteq> Hold
         then Some \<lparr> sig_symbol = symbol, sig_action = act, sig_confidence = confidence,
                     sig_sentiment = sentiment, sig_news_id = nid, sig_reasoning = reason \<rparr>
         else None)"

fun signals_loop ::
  "trading_config \<Rightarrow> data_store \<Rightarrow> string \<Rightarrow> real \<Rightarrow> real \<Rightarrow> int option \<Rightarrow>
   json list \<Rightarrow> trading_signal list \<Rightarrow> trading_signal list \<times> error option" where
  \<comment> \<open>the \<open>for coin in mentioned_coins\<close> loop; the result is the list \<open>signals\<close> when the
      loop ends and the exception that ended it, if any. \<open>coin.upper()\<close> exists on
      strings only.\<close>
  "signals_loop cfg st sentiment score confidence nid [] signals = (signals, None)"
| "signals_loop cfg st sentiment score confidence nid (JStr coin # rest) signals =
     (if \<not> is_coin_supported cfg coin
      then signals_loop cfg st sentiment score confidence nid rest signals
      else (case coin_signal st sentiment score confidence nid coin of
              None \<Rightarrow> signals_loop cfg st sentiment score confidence nid rest signals
            | Some s \<Rightarrow> signals_loop cfg st sentiment score confidence nid rest (signals @ [s])))"
| "signals_loop cfg st sentiment score confidence nid (_ # rest) signals =
     (signals, Some AttributeError)"

definition event_sentiment :: "news_data \<Rightarrow> string" where
  \<comment> \<open>\<open>news_data.get('sentiment', 'neutral')\<close>\<close>
  "event_sentiment nd = (case nd_sentiment nd of None \<Rightarrow> ''neutral'' | Some s \<Rightarrow> s)"

definition event_sentiment_score :: "news_data \<Rightarrow> real" where
  "event_sentiment_score nd = (case nd_sentiment_score nd of None \<Rightarrow> 0 | Some x \<Rightarrow> x)"

definition event_confidence :: "news_data \<Rightarrow> real" where
  "event_confidence nd = (case nd_confidence nd of None \<Rightarrow> 0 | Some x \<Rightarrow> x)"

definition event_mentioned_coins :: "(string \<Rightarrow> json option) \<Rightarrow> news_data \<Rightarrow> json" where
  \<comment> \<open>the value of \<open>mentioned_coins\<close> after the inner \<open>try\<close>. \<open>loads\<close> is \<open>json.loads\<close> on a
      string, \<^const>\<open>None\<close> when it raises \<open>JSONDecodeError\<close>.\<close>
  "event_mentioned_coins loads nd =
     (let mentioned_coins_str = (case nd_mentioned_coins nd of None \<Rightarrow> ''[]'' | Some s \<Rightarrow> s)
      in if mentioned_coins_str \<noteq> []
         then (case loads mentioned_coins_str of None \<Rightarrow> JArr [] | Some v \<Rightarrow> v)
         else JArr [])"

definition analyze_news_body ::
  "trading_config \<Rightarrow> (string \<Rightarrow> json option) \<Rightarrow> data_store \<Rightarrow> news_data \<Rightarrow>
   trading_signal list \<times> error option" where
  \<comment> \<open>the outer \<open>try\<close> block of \<open>analyze_news_for_trading\<close>: the list \<open>signals\<close> when the
      block is left, and the exception that left it, if any\<close>
  "analyze_news_body cfg loads st nd =
     (let sentiment = event_sentiment nd;
          sentiment_score = event_sentiment_score nd;
          confidence = event_confidence nd;
          mentioned_coins = event_mentioned_coins loads nd
      in if confidence < min_confidence then ([], None)
         else (case py_iter mentioned_coins of
                 Inl e \<Rightarrow> ([], Some e)
               | Inr coins \<Rightarrow>
                   signals_loop cfg st sentiment sentiment_score confidence (nd_id nd) coins []))"

definition analyze_news_for_trading ::
  "trading_config \<Rightarrow> (string \<Rightarrow> json option) \<Rightarrow> data_store \<Rightarrow> news_data \<Rightarrow> trading_signal list" where
  \<comment> \<open>\<open>except Exception\<close> logs and falls through to \<open>return signals\<close>\<close>
  "analyze_news_for_trading cfg loads st nd = fst (analyze_news_body cfg loads st nd)"

section \<open>trading\_strategy.py: risk management and execution\<close>

record risk_manager =
  daily_trades :: int
  daily_loss :: real
  open_positions_count :: int
  last_reset :: nat

text \<open>
  The state the trading core works on: the store, the client of the venue and the risk
  counters, which the program holds in module-level objects. Dates are days counted in
  \<^typ>\<open>nat\<close>; \<open>today\<close> is the date of \<open>datetime.utcnow()\<close> and \<open>now\<close> its instant.
\<close>

record world =
  store :: data_store
  venue :: mock_client
  risk :: risk_manager

definition reset_daily_counters :: "nat \<Rightarrow> risk_manager \<Rightarrow> risk_manager" where
  "reset_daily_counters today rm =
     (if today > last_reset rm
      then rm\<lparr>daily_trades := 0, daily_loss := 0, last_reset := today\<rparr>
      else rm)"

definition check_trade_limits ::
  "trading_config \<Rightarrow> nat \<Rightarrow> real \<Rightarrow> data_store \<Rightarrow> mock_client \<Rightarrow> risk_manager \<Rightarrow>
   bool \<times> risk_manager" where
  "check_trade_limits cfg today trade_amount st c rm =
     (let rm1 = reset_daily_counters today rm
      in if daily_trades rm1 \<ge> max_daily_trades cfg then (False, rm1)
         else if daily_loss rm1 \<ge> daily_loss_limit cfg then (False, rm1)
         else if int (length (get_open_positions st)) \<ge> max_open_positions cfg then (False, rm1)
         else (case get_balance c ''USDT'' of
                 Inl e \<Rightarrow> (False, rm1)
               | Inr usdt_balance \<Rightarrow>
                   if usdt_balance < trade_amount then (False, rm1) else (True, rm1)))"

definition record_trade :: "real \<Rightarrow> risk_manager \<Rightarrow> risk_manager" where
  "record_trade pnl rm =
     (let rm1 = rm\<lparr>daily_trades := daily_trades rm + 1\<rparr>
      in if pnl < 0 then rm1\<lparr>daily_loss := daily_loss rm1 + \<bar>pnl\<bar>\<rparr> else rm1)"

definition can_open_position :: "data_store \<Rightarrow> string \<Rightarrow> bool" where
  "can_open_position st symbol \<longleftrightarrow>
     \<not> list_ex (\<lambda>p. pos_symbol p = symbol) (get_open_positions st)"

record exec_result =
  res_order_id :: int
  res_position_id :: int
  res_pnl :: "real option"
  res_order :: mock_order

definition execute_buy ::
  "trading_config \<Rightarrow> nat \<Rightarrow> nat \<Rightarrow> trading_signal \<Rightarrow> world \<Rightarrow>
   (error + exec_result option) \<times> world" where
  \<comment> \<open>\<open>_execute_buy\<close>: \<open>Inr None\<close> is \<open>return None\<close>, \<open>Inl TradingError\<close> the exception
      the \<open>except\<close> clause raises\<close>
  "execute_buy cfg now today sg w =
     (let trade_amount = dict_get (trade_amounts cfg) (sig_symbol sg) (trade_amount_usdt cfg);
          (ok, rm1) = check_trade_limits cfg today trade_amount (store w) (venue w) (risk w);
          w1 = w\<lparr>risk := rm1\<rparr>
      in if \<not> ok then (Inr None, w1)
         else if \<not> can_open_position (store w1) (sig_symbol sg) then (Inr None, w1)
         else
           (case calculate_buy_quantity (sig_symbol sg) trade_amount (venue w1) of
              (Inl e, c1) \<Rightarrow> (Inl TradingError, w1\<lparr>venue := c1\<rparr>)
            | (Inr quantity, c1) \<Rightarrow>
           (case get_price (sig_symbol sg) c1 of
              (Inl e, c2) \<Rightarrow> (Inl TradingError, w1\<lparr>venue := c2\<rparr>)
            | (Inr current_price, c2) \<Rightarrow>
           (case create_market_buy_order (sig_symbol sg) quantity c2 of
              (Inl e, c3) \<Rightarrow> (Inl TradingError, w1\<lparr>venue := c3\<rparr>)
            | (Inr order, c3) \<Rightarrow>
                (let order_data =
                       \<lparr> ord_id = 0, ord_binance_order_id = mo_orderId order,
                         ord_symbol = sig_symbol sg, ord_side = BUY, ord_quantity = quantity,
                         ord_price = current_price, ord_status = mo_status order,
                         ord_executed_quantity = mo_executedQty order,
                         ord_executed_price = mo_price order, ord_position_id = None,
                         ord_news_item_id = sig_news_id sg,
                         ord_created_at = 0, ord_updated_at = 0 \<rparr>;
                     (order_id, st1) = save_trading_order now order_data (store w1);
                     stop_loss_price = current_price * (1 - stop_loss_percentage cfg);
                     position_data =
                       \<lparr> pos_id = 0, pos_symbol = sig_symbol sg, pos_quantity = quantity,
                         pos_entry_price = current_price, pos_current_price = current_price,
                         pos_stop_loss_price = stop_loss_price,
                         pos_stop_loss_percentage = stop_loss_percentage cfg,
                         pos_status = Open, pos_is_monitoring = True,
                         pos_entry_order_id = order_id, pos_news_item_id = sig_news_id sg,
                         pos_unrealized_pnl = None, pos_realized_pnl = None,
                         pos_exit_order_id = None,
                         pos_opened_at = 0, pos_updated_at = 0, pos_closed_at = None \<rparr>;
                     (position_id, st2) = save_position now position_data st1;
                     st3 = update_trading_order now order_id
                             (\<lambda>od. od\<lparr>ord_position_id := Some position_id\<rparr>) st2;
                     rm2 = record_trade 0 (risk w1)
                 in (Inr (Some \<lparr> res_order_id = order_id, res_position_id = position_id,
                                  res_pnl = None, res_order = order \<rparr>),
                     w1\<lparr>store := st3, venue := c3, risk := rm2\<rparr>))))))"

definition execute_sell ::
  "nat \<Rightarrow> trading_signal \<Rightarrow> world \<Rightarrow> (error + exec_result option) \<times> world" where
  \<comment> \<open>\<open>_execute_sell\<close>\<close>
  "execute_sell now sg w =
     (case find (\<lambda>pos. pos_symbol pos = sig_symbol sg) (get_open_positions (store w)) of
        None \<Rightarrow> (Inr None, w)
      | Some position \<Rightarrow>
          (let quantity = pos_quantity position
           in case get_price (sig_symbol sg) (venue w) of
                (Inl e, c1) \<Rightarrow> (Inl TradingError, w\<lparr>venue := c1\<rparr>)
              | (Inr current_price, c1) \<Rightarrow>
             (case create_market_sell_order (sig_symbol sg) quantity c1 of
                (Inl e, c2) \<Rightarrow> (Inl TradingError, w\<lparr>venue := c2\<rparr>)
              | (Inr order, c2) \<Rightarrow>
                  (let order_data =
                         \<lparr> ord_id = 0, ord_binance_order_id = mo_orderId order,
                           ord_symbol = sig_symbol sg, ord_side = SELL, ord_quantity = quantity,
                           ord_price = current_price, ord_status = mo_status order,
                           ord_executed_quantity = mo_executedQty order,
                           ord_executed_price = mo_price order,
                           ord_position_id = Some (pos_id position),
                           ord_news_item_id = sig_news_id sg,
                           ord_created_at = 0, ord_updated_at = 0 \<rparr>;
                       (order_id, st1) = save_trading_order now order_data (store w);
                       entry_price = pos_entry_price position;
                       realized_pnl = (current_price - entry_price) * quantity;
                       st2 = update_position now (pos_id position)
                               (\<lambda>p. p\<lparr>pos_status := Closed, pos_current_price := current_price,
                                      pos_realized_pnl := Some realized_pnl,
                                      pos_exit_order_id := Some order_id,
                                      pos_is_monitoring := False\<rparr>)
                               (Some Closed) st1;
                       rm1 = record_trade realized_pnl (risk w)
                   in (Inr (Some \<lparr> res_order_id = order_id, res_position_id = pos_id position,
                                    res_pnl = Some realized_pnl, res_order = order \<rparr>),
                       w\<lparr>store := st2, venue := c2, risk := rm1\<rparr>)))))"

definition execute_signal ::
  "trading_config \<Rightarrow> nat \<Rightarrow> nat \<Rightarrow> trading_signal \<Rightarrow> world \<Rightarrow>
   (error + exec_result option) \<times> world" where
  "execute_signal cfg now today sg w =
     (case sig_action sg of
        Buy \<Rightarrow> (case execute_buy cfg now today sg w of
                  (Inl e, w1) \<Rightarrow> (Inl TradingError, w1) | (Inr r, w1) \<Rightarrow> (Inr r, w1))
      | Sell \<Rightarrow> (case execute_sell now sg w of
                  (Inl e, w1) \<Rightarrow> (Inl TradingError, w1) | (Inr r, w1) \<Rightarrow> (Inr r, w1))
      | Hold \<Rightarrow> (Inr None, w))"

subsection \<open>\<open>TradingEngine.get_trading_summary\<close>\<close>

record risk_stats =
  rs_daily_trades :: int
  rs_daily_loss :: real
  rs_max_daily_trades :: int
  rs_daily_loss_limit :: real

datatype summary_value =
    Count nat
  | Amount real
  | Balances "(string \<times> real) list"
  | Order_list "trading_order list"
  | Position_list "position list"
  | Risk risk_stats

definition get_trading_summary :: "trading_config \<Rightarrow> world \<Rightarrow> (string \<times> summary_value) list" where
  \<comment> \<open>the dict the \<open>try\<close> block returns, as the list of its items\<close>
  "get_trading_summary cfg w =
     (let orders = get_trading_orders (store w) 50;
          positions = get_all_positions (store w) 50;
          open_positions = get_open_positions (store w);
          total_trades = length orders;
          open_positions_count = length open_positions;
          total_pnl = sum_list (map (\<lambda>pos. case pos_realized_pnl pos of None \<Rightarrow> 0 | Some x \<Rightarrow> x)
                                    positions);
          balances = dict_of_items (account_balance (venue w))
      in dict_of_items
           [(''total_trades'', Count total_trades),
            (''open_positions'', Count open_positions_count),
            (''total_pnl'', Amount total_pnl),
            (''balances'', Balances balances),
            (''recent_orders'', Order_list (take 10 orders)),
            (''open_positions'', Position_list open_positions),
            (''risk_stats'',
               Risk \<lparr> rs_daily_trades = daily_trades (risk w),
                      rs_daily_loss = daily_loss (risk w),
                      rs_max_daily_trades = max_daily_trades cfg,
                      rs_daily_loss_limit = daily_loss_limit cfg \<rparr>)])"

section \<open>stop\_loss\_monitor.py\<close>

record position_monitor =
  mon_position_id :: int
  mon_symbol :: string
  mon_quantity :: real
  mon_entry_price :: real
  mon_stop_loss_price :: real
  mon_stop_loss_percentage :: real
  mon_running :: bool

definition new_monitor :: "position \<Rightarrow> position_monitor" where
  \<comment> \<open>\<open>PositionMonitor.__init__\<close>\<close>
  "new_monitor p =
     \<lparr> mon_position_id = pos_id p, mon_symbol = pos_symbol p, mon_quantity = pos_quantity p,
       mon_entry_price = pos_entry_price p, mon_stop_loss_price = pos_stop_loss_price p,
       mon_stop_loss_percentage = pos_stop_loss_percentage p, mon_running = False \<rparr>"

definition get_current_position :: "position_monitor \<Rightarrow> data_store \<Rightarrow> position option" where
  "get_current_position m st =
     find (\<lambda>p. pos_id p = mon_position_id m) (get_all_positions st 1000)"

definition execute_stop_loss ::
  "nat \<Rightarrow> position_monitor \<Rightarrow> real \<Rightarrow> world \<Rightarrow> (error + unit) \<times> world" where
  \<comment> \<open>\<open>_execute_stop_loss\<close>; \<open>Inl StopLossError\<close> is the exception its \<open>except\<close> clause raises\<close>
  "execute_stop_loss now m current_price w =
     (case create_market_sell_order (mon_symbol m) (mon_quantity m) (venue w) of
        (Inl e, c1) \<Rightarrow> (Inl StopLossError, w\<lparr>venue := c1\<rparr>)
      | (Inr order, c1) \<Rightarrow>
          (let order_data =
                 \<lparr> ord_id = 0, ord_binance_order_id = mo_orderId order,
                   ord_symbol = mon_symbol m, ord_side = SELL, ord_quantity = mon_quantity m,
                   ord_price = current_price, ord_status = mo_status order,
                   ord_executed_quantity = mo_executedQty order,
                   ord_executed_price = mo_price order,
                   ord_position_id = Some (mon_position_id m), ord_news_item_id = None,
                   ord_created_at = 0, ord_updated_at = 0 \<rparr>;
               (order_id, st1) = save_trading_order now order_data (store w);
               executed_price = mo_price order;
               realized_pnl = (executed_price - mon_entry_price m) * mon_quantity m;
               st2 = update_position now (mon_position_id m)
                       (\<lambda>p. p\<lparr>pos_status := Stopped, pos_current_price := executed_price,
                              pos_realized_pnl := Some realized_pnl,
                              pos_exit_order_id := Some order_id,
                              pos_is_monitoring := False\<rparr>)
                       (Some Stopped) st1
           in (Inr (), w\<lparr>store := st2, venue := c1\<rparr>)))"

datatype tick = Break | Sleep

definition price_update :: "nat \<Rightarrow> position_monitor \<Rightarrow> real \<Rightarrow> data_store \<Rightarrow> data_store" where
  \<comment> \<open>the write of \<open>current_price\<close> and \<open>unrealized_pnl\<close> in the monitor loop\<close>
  "price_update now m current_price st =
     (let unrealized_pnl = (current_price - mon_entry_price m) * mon_quantity m
      in update_position now (mon_position_id m)
           (\<lambda>p. p\<lparr>pos_current_price := current_price, pos_unrealized_pnl := Some unrealized_pnl\<rparr>)
           None st)"

definition monitor_iteration :: "nat \<Rightarrow> position_monitor \<Rightarrow> world \<Rightarrow> tick \<times> world" where
  \<comment> \<open>one pass through the body of \<open>while self.running\<close>: \<^const>\<open>Break\<close> leaves the loop,
      \<^const>\<open>Sleep\<close> waits \<open>check_interval\<close> and tests \<open>self.running\<close> again. An exception
      raised in the \<open>try\<close> block reaches \<open>except Exception\<close>, which logs and sleeps.\<close>
  "monitor_iteration now m w =
     (case get_current_position m (store w) of
        None \<Rightarrow> (Break, w)
      | Some position \<Rightarrow>
          if pos_status position \<noteq> Open then (Break, w)
          else
            (case get_price (mon_symbol m) (venue w) of
               (Inl e, c1) \<Rightarrow> (Sleep, w\<lparr>venue := c1\<rparr>)
             | (Inr current_price, c1) \<Rightarrow>
                 (let w1 = w\<lparr>store := price_update now m current_price (store w), venue := c1\<rparr>
                  in if current_price \<le> mon_stop_loss_price m
                     then (case execute_stop_loss now m current_price w1 of
                             (Inl e, w2) \<Rightarrow> (Sleep, w2)
                           | (Inr u, w2) \<Rightarrow> (Break, w2))
                     else (Sleep, w1))))"

fun monitor_loop :: "nat list \<Rightarrow> position_monitor \<Rightarrow> world \<Rightarrow> (position_monitor \<times> world) option" where
  \<comment> \<open>\<open>_monitor_loop\<close>, run for at most as many passes as there are instants in the list (the
      instant of each pass). \<^const>\<open>None\<close>: the loop has not ended within these passes.\<close>
  "monitor_loop [] m w = (if mon_running m then None else Some (m, w))"
| "monitor_loop (now # later) m w =
     (if \<not> mon_running m then Some (m, w)
      else (case monitor_iteration now m w of
              (Break, w1) \<Rightarrow> Some (m\<lparr>mon_running := False\<rparr>, w1)
            | (Sleep, w1) \<Rightarrow> monitor_loop later m w1))"

subsection \<open>\<open>StopLossManager\<close>\<close>

datatype stop_loss_log = Updated_stop_loss real real | No_monitor_found

definition update_stop_loss ::
  "nat \<Rightarrow> int \<Rightarrow> real \<Rightarrow> (int \<times> position_monitor) list \<Rightarrow> data_store \<Rightarrow>
   (error + stop_loss_log) \<times> (int \<times> position_monitor) list \<times> data_store" where
  \<comment> \<open>\<open>update_stop_loss\<close> on the dict \<open>self.monitors\<close> and the store; the method returns
      nothing, the value here is the line it logs\<close>
  "update_stop_loss now position_id new_stop_loss_price monitors st =
     (case map_of monitors position_id of
        Some monitor \<Rightarrow>
          (let old_price = mon_stop_loss_price monitor;
               monitors1 = AList.update position_id
                             (monitor\<lparr>mon_stop_loss_price := new_stop_loss_price\<rparr>) monitors;
               st1 = update_position now position_id
                       (\<lambda>p. p\<lparr>pos_stop_loss_price := new_stop_loss_price\<rparr>) None st
           in (Inr (Updated_stop_loss old_price new_stop_loss_price), monitors1, st1))
      | None \<Rightarrow> (Inr No_monitor_found, monitors, st))"

section \<open>Operations of the core on the shared state\<close>





section \<open>Concrete inputs\<close>

definition sample_loads :: "string \<Rightarrow> json option" where
  \<comment> \<open>agrees with \<open>json.loads\<close> on the three strings the examples below pass to it\<close>
  \<open>sample_loads s =
     (if s = ''["BTC"]'' then Some (JArr [JStr ''BTC''])
      else if s = ''[]'' then Some (JArr [])
      else None)\<close>

definition empty_store :: data_store where
  "empty_store = \<lparr> positions = [], orders = [] \<rparr>"

definition news_btc_positive :: news_data where
  \<comment> \<open>the event of \<open>test_signal_generation_positive\<close>\<close>
  \<open>news_btc_positive =
     \<lparr> nd_id = Some 1, nd_sentiment = Some ''positive'', nd_sentiment_score = Some (8 / 10),
       nd_confidence = Some (9 / 10), nd_mentioned_coins = Some ''["BTC"]'' \<rparr>\<close>

definition news_bad_coins :: news_data where
  \<open>news_bad_coins =
     \<lparr> nd_id = Some 4, nd_sentiment = Some ''positive'', nd_sentiment_score = Some (8 / 10),
       nd_confidence = Some (9 / 10), nd_mentioned_coins = Some ''["BTC'' \<rparr>\<close>

definition fresh_risk :: risk_manager where
  "fresh_risk = \<lparr> daily_trades = 0, daily_loss = 0, open_positions_count = 0, last_reset = 0 \<rparr>"

definition risk_at_limit :: risk_manager where
  "risk_at_limit =
     \<lparr> daily_trades = 20, daily_loss = 0, open_positions_count = 0, last_reset = 0 \<rparr>"

definition btc_buy_signal :: trading_signal where
  "btc_buy_signal =
     \<lparr> sig_symbol = ''BTCUSDT'', sig_action = Buy, sig_confidence = 9 / 10,
       sig_sentiment = ''positive'', sig_news_id = Some 1,
       sig_reasoning = Positive_for (8 / 10) ''BTC'' \<rparr>"

definition btc_sell_signal :: trading_signal where
  "btc_sell_signal =
     \<lparr> sig_symbol = ''BTCUSDT'', sig_action = Sell, sig_confidence = 85 / 100,
       sig_sentiment = ''negative'', sig_news_id = Some 2,
       sig_reasoning = Negative_for (- (7 / 10)) ''BTC'' \<rparr>"

definition fresh_world :: "(nat \<Rightarrow> real) \<Rightarrow> world" where
  \<comment> \<open>the state of a new process on an empty data directory\<close>
  "fresh_world vs = \<lparr> store = empty_store, venue = initial_client vs, risk = fresh_risk \<rparr>"

definition btc_position :: position where
  \<comment> \<open>the position a buy of 10 USDT at a quote of 45000 leaves in an empty store\<close>
  "btc_position =
     \<lparr> pos_id = 1, pos_symbol = ''BTCUSDT'', pos_quantity = 222 / 1000000,
       pos_entry_price = 45000, pos_current_price = 45000, pos_stop_loss_price = 40500,
       pos_stop_loss_percentage = 1 / 10, pos_status = Open, pos_is_monitoring = True,
       pos_entry_order_id = 1, pos_news_item_id = Some 1, pos_unrealized_pnl = None,
       pos_realized_pnl = None, pos_exit_order_id = None, pos_opened_at = 5,
       pos_updated_at = 5, pos_closed_at = None \<rparr>"

definition btc_store :: data_store where
  "btc_store = \<lparr> positions = [btc_position], orders = [] \<rparr>"

definition second_quote_up :: "nat \<Rightarrow> real" where
  \<comment> \<open>price variations: the second quote of the process is 2 percent up\<close>
  "second_quote_up n = (if n = 1 then 2 / 100 else 0)"

definition sell_quote_down :: "nat \<Rightarrow> real" where
  \<comment> \<open>price variations: the fifth quote of the process is 2 percent down\<close>
  "sell_quote_down n = (if n = 4 then - (2 / 100) else 0)"

definition raised_position :: position where
  \<comment> \<open>\<^const>\<open>btc_position\<close> after its stop-loss has been raised to 44500\<close>
  "raised_position = btc_position\<lparr>pos_stop_loss_price := 44500\<rparr>"

definition restarted_world :: world where
  \<comment> \<open>a new process on a data directory that holds \<^const>\<open>raised_position\<close>: the store is
      read from disk, the mock client starts with its initial balances; every quote is
      2 percent down\<close>
  "restarted_world =
     \<lparr> store = \<lparr> positions = [raised_position], orders = [] \<rparr>,
       venue = initial_client (\<lambda>n. - (2 / 100)), risk = fresh_risk \<rparr>"

definition raised_monitor :: position_monitor where
  "raised_monitor = (new_monitor raised_position)\<lparr>mon_running := True\<rparr>"

definition world_after_buy :: world where
  "world_after_buy = snd (execute_buy default_config 5 0 btc_buy_signal (fresh_world (\<lambda>n. 0)))"


definition btc_monitor :: position_monitor where
  "btc_monitor = (new_monitor btc_position)\<lparr>mon_running := True\<rparr>"




definition raised_registry_store :: "(int \<times> position_monitor) list \<times> data_store" where
  \<comment> \<open>the monitors and the store after the buy, once the threshold of position 1 has been
      raised to 45500\<close>
  "raised_registry_store =
     snd (update_stop_loss 6 1 45500 [(1, btc_monitor)] (store world_after_buy))"

definition eager_monitor :: position_monitor where
  "eager_monitor = btc_monitor\<lparr>mon_stop_loss_price := 45500\<rparr>"

definition world_after_raise :: world where
  "world_after_raise = world_after_buy\<lparr>store := snd raised_registry_store\<rparr>"

definition world_after_stop :: world where
  \<comment> \<open>after the next pass of the monitor: the quote of 45000 is under the threshold\<close>
  "world_after_stop = snd (monitor_iteration 8 eager_monitor world_after_raise)"

definition ended_monitor :: position_monitor where
  \<comment> \<open>the monitor object once its loop has ended\<close>
  "ended_monitor = eager_monitor\<lparr>mon_running := False\<rparr>"

section \<open>Signal generation\<close>

lemma coin_signal_sound:
  "coin_signal st sentiment score confidence nid coin = Some s \<Longrightarrow>
     sig_symbol s = get_trade_symbol coin \<and> sig_confidence s = confidence \<and>
     sig_sentiment s = sentiment \<and> sig_action s \<noteq> Hold \<and>
     (sig_action s = Buy \<longrightarrow> sentiment = ''positive'' \<and> score > 3 / 10) \<and>
     (sig_action s = Sell \<longrightarrow>
        sentiment = ''negative'' \<and> score < - (3 / 10) \<and> has_open_position st (sig_symbol s))"
  by (auto simp: coin_signal_def sentiment_threshold_def Let_def split: if_splits)

lemma signals_loop_all:
  "list_all Q signals \<Longrightarrow>
   (\<And>coin s. coin_signal st sentiment score confidence nid coin = Some s \<Longrightarrow> Q s) \<Longrightarrow>
   list_all Q (fst (signals_loop cfg st sentiment score confidence nid coins signals))"
  by (induction cfg st sentiment score confidence nid coins signals rule: signals_loop.induct)
     (auto split: option.splits)

lemma signals_loop_symbols:
  "\<exists>cs. subseq (map JStr cs) coins \<and> list_all (is_coin_supported cfg) cs \<and>
        map sig_symbol (fst (signals_loop cfg st sentiment score confidence nid coins signals))
          = map sig_symbol signals @ map get_trade_symbol cs"
proof (induction cfg st sentiment score confidence nid coins signals rule: signals_loop.induct)
  case (1 cfg st sentiment score confidence nid signals)
  show ?case by (rule exI [of _ "[]"]) simp
next
  case (2 cfg st sentiment score confidence nid coin rest signals)
  show ?case
  proof (cases "is_coin_supported cfg coin")
    case False
    with 2(1) obtain cs where "subseq (map JStr cs) rest" "list_all (is_coin_supported cfg) cs"
      "map sig_symbol (fst (signals_loop cfg st sentiment score confidence nid rest signals))
          = map sig_symbol signals @ map get_trade_symbol cs" by blast
    with False show ?thesis by (intro exI [of _ cs]) (simp add: list_emb_Cons)
  next
    case True
    show ?thesis
    proof (cases "coin_signal st sentiment score confidence nid coin")
      case None
      with True 2(2) obtain cs where "subseq (map JStr cs) rest"
        "list_all (is_coin_supported cfg) cs"
        "map sig_symbol (fst (signals_loop cfg st sentiment score confidence nid rest signals))
          = map sig_symbol signals @ map get_trade_symbol cs" by blast
      with True None show ?thesis by (intro exI [of _ cs]) (simp add: list_emb_Cons)
    next
      case (Some s)
      with True 2(3) obtain cs where "subseq (map JStr cs) rest"
        "list_all (is_coin_supported cfg) cs"
        "map sig_symbol
           (fst (signals_loop cfg st sentiment score confidence nid rest (signals @ [s])))
          = map sig_symbol (signals @ [s]) @ map get_trade_symbol cs" by blast
      moreover have "sig_symbol s = get_trade_symbol coin"
        using Some coin_signal_sound by blast
      ultimately show ?thesis using True Some by (intro exI [of _ "coin # cs"]) simp
    qed
  qed
qed (rule exI [of _ "[]"], simp)+

text \<open>
  Claim C1. In the list \<open>analyze_news_for_trading\<close> returns for an event, every buy signal
  has confidence at least 0.6 and carries the sentiment \<open>positive\<close> of an event whose score
  is above 0.3; every sell signal has confidence at least 0.6 and carries the sentiment
  \<open>negative\<close> of an event whose score is below -0.3, and an open position for its symbol
  was in the store; no signal has the action hold; and the symbols of the signals are the
  trading pairs of supported coins taken from the mentioned coins in their order.
\<close>

theorem analyze_news_signals_sound:
  "(\<forall>s \<in> set (analyze_news_for_trading cfg loads st nd).
      sig_action s \<noteq> Hold \<and>
      (sig_action s = Buy \<longrightarrow>
         sig_confidence s \<ge> 6 / 10 \<and> sig_sentiment s = ''positive'' \<and>
         event_sentiment nd = ''positive'' \<and> event_sentiment_score nd > 3 / 10) \<and>
      (sig_action s = Sell \<longrightarrow>
         sig_confidence s \<ge> 6 / 10 \<and> sig_sentiment s = ''negative'' \<and>
         event_sentiment nd = ''negative'' \<and> event_sentiment_score nd < - (3 / 10) \<and>
         (\<exists>p \<in> set (positions st). pos_status p = Open \<and> pos_symbol p = sig_symbol s))) \<and>
   (\<exists>coins.
      list_all (is_coin_supported cfg) coins \<and>
      map sig_symbol (analyze_news_for_trading cfg loads st nd) = map get_trade_symbol coins \<and>
      (\<forall>xs. py_iter (event_mentioned_coins loads nd) = Inr xs \<longrightarrow> subseq (map JStr coins) xs))"
proof (cases "event_confidence nd < min_confidence")
  case True
  then have "analyze_news_for_trading cfg loads st nd = []"
    by (simp add: analyze_news_for_trading_def analyze_news_body_def)
  then show ?thesis by (auto intro: exI [of _ "[]"])
next
  case conf: False
  show ?thesis
  proof (cases "py_iter (event_mentioned_coins loads nd)")
    case (Inl e)
    with conf have "analyze_news_for_trading cfg loads st nd = []"
      by (simp add: analyze_news_for_trading_def analyze_news_body_def)
    with Inl show ?thesis by (auto intro: exI [of _ "[]"])
  next
    case (Inr coins)
    let ?Q = "\<lambda>s. sig_action s \<noteq> Hold \<and>
      (sig_action s = Buy \<longrightarrow>
         sig_confidence s \<ge> 6 / 10 \<and> sig_sentiment s = ''positive'' \<and>
         event_sentiment nd = ''positive'' \<and> event_sentiment_score nd > 3 / 10) \<and>
      (sig_action s = Sell \<longrightarrow>
         sig_confidence s \<ge> 6 / 10 \<and> sig_sentiment s = ''negative'' \<and>
         event_sentiment nd = ''negative'' \<and> event_sentiment_score nd < - (3 / 10) \<and>
         (\<exists>p \<in> set (positions st). pos_status p = Open \<and> pos_symbol p = sig_symbol s))"
    have eq: "analyze_news_for_trading cfg loads st nd =
        fst (signals_loop cfg st (event_sentiment nd) (event_sentiment_score nd)
               (event_confidence nd) (nd_id nd) coins [])"
      using conf Inr by (simp add: analyze_news_for_trading_def analyze_news_body_def)
    have step: "?Q s"
      if "coin_signal st (event_sentiment nd) (event_sentiment_score nd)
            (event_confidence nd) (nd_id nd) coin = Some s" for coin s
      using coin_signal_sound [OF that] conf
      by (auto simp: min_confidence_def has_open_position_def get_open_positions_def
            list_ex_iff)
    have "list_all ?Q (analyze_news_for_trading cfg loads st nd)"
      unfolding eq by (rule signals_loop_all) (simp, rule step)
    then have part1: "\<forall>s \<in> set (analyze_news_for_trading cfg loads st nd). ?Q s"
      by (simp add: list_all_iff)
    from signals_loop_symbols [of coins cfg st "event_sentiment nd"
        "event_sentiment_score nd" "event_confidence nd" "nd_id nd" "[]"]
    obtain cs where "subseq (map JStr cs) coins" "list_all (is_coin_supported cfg) cs"
      "map sig_symbol (analyze_news_for_trading cfg loads st nd) = map get_trade_symbol cs"
      unfolding eq by auto
    with Inr have part2: "\<exists>coins.
      list_all (is_coin_supported cfg) coins \<and>
      map sig_symbol (analyze_news_for_trading cfg loads st nd) = map get_trade_symbol coins \<and>
      (\<forall>xs. py_iter (event_mentioned_coins loads nd) = Inr xs \<longrightarrow> subseq (map JStr coins) xs)"
      by (intro exI [of _ cs]) simp
    from part1 part2 show ?thesis by (rule conjI)
  qed
qed

theorem analyze_news_signals_sound_witness:
  "analyze_news_for_trading default_config sample_loads empty_store news_btc_positive =
      [\<lparr> sig_symbol = ''BTCUSDT'', sig_action = Buy, sig_confidence = 9 / 10,
         sig_sentiment = ''positive'', sig_news_id = Some 1,
         sig_reasoning = Positive_for (8 / 10) ''BTC'' \<rparr>] \<and>
   (9 / 10 :: real) \<ge> 6 / 10 \<and>
   event_sentiment news_btc_positive = ''positive'' \<and>
   event_sentiment_score news_btc_positive > 3 / 10 \<and>
   (\<exists>coins. list_all (is_coin_supported default_config) coins \<and>
      [''BTCUSDT''] = map get_trade_symbol coins)"
proof -
  have run: "analyze_news_for_trading default_config sample_loads empty_store news_btc_positive =
      [\<lparr> sig_symbol = ''BTCUSDT'', sig_action = Buy, sig_confidence = 9 / 10,
         sig_sentiment = ''positive'', sig_news_id = Some 1,
         sig_reasoning = Positive_for (8 / 10) ''BTC'' \<rparr>]"
    by (simp add: analyze_news_for_trading_def analyze_news_body_def event_sentiment_def
          event_sentiment_score_def event_confidence_def event_mentioned_coins_def
          news_btc_positive_def sample_loads_def py_iter_def min_confidence_def
          is_coin_supported_def default_config_def upper_def upper_char_def coin_signal_def
          sentiment_threshold_def get_trade_symbol_def endswith_def)
  from analyze_news_signals_sound [of default_config sample_loads empty_store
        news_btc_positive]
  have "event_sentiment news_btc_positive = ''positive'' \<and>
        event_sentiment_score news_btc_positive > 3 / 10 \<and>
        (\<exists>coins. list_all (is_coin_supported default_config) coins \<and>
           [''BTCUSDT''] = map get_trade_symbol coins)"
    unfolding run by auto
  with run show ?thesis by simp
qed

text \<open>
  Claim C10. When the mentioned-coins field of an event is absent, empty or not valid
  JSON, \<open>analyze_news_for_trading\<close> takes the event to mention no coins: no exception
  leaves or is caught in its body, and it returns the empty list.
\<close>

theorem analyze_news_total_on_bad_coins:
  "(nd_mentioned_coins nd = None \<and> loads ''[]'' = Some (JArr [])) \<or>
   nd_mentioned_coins nd = Some [] \<or>
   (\<exists>s. nd_mentioned_coins nd = Some s \<and> loads s = None) \<Longrightarrow>
   event_mentioned_coins loads nd = JArr [] \<and>
   analyze_news_body cfg loads st nd = ([], None) \<and>
   analyze_news_for_trading cfg loads st nd = []"
  by (auto simp: analyze_news_for_trading_def analyze_news_body_def event_mentioned_coins_def
        py_iter_def Let_def)

theorem analyze_news_total_on_bad_coins_witness:
  \<open>nd_mentioned_coins news_bad_coins = Some ''["BTC'' \<and> sample_loads ''["BTC'' = None \<and>
   analyze_news_body default_config sample_loads empty_store news_bad_coins = ([], None) \<and>
   analyze_news_for_trading default_config sample_loads empty_store news_bad_coins = []\<close>
proof -
  have h: \<open>nd_mentioned_coins news_bad_coins = Some ''["BTC''\<close>
    by (simp add: news_bad_coins_def)
  have l: \<open>sample_loads ''["BTC'' = None\<close>
    by (simp add: sample_loads_def)
  from h l have
    "(nd_mentioned_coins news_bad_coins = None \<and> sample_loads ''[]'' = Some (JArr [])) \<or>
     nd_mentioned_coins news_bad_coins = Some [] \<or>
     (\<exists>s. nd_mentioned_coins news_bad_coins = Some s \<and> sample_loads s = None)"
    by blast
  from analyze_news_total_on_bad_coins [OF this, of default_config empty_store] h l
  show ?thesis by simp
qed

section \<open>The store\<close>

lemma generate_id_fresh: "generate_id ids \<notin> set ids"
proof (cases "ids = []")
  case True
  then show ?thesis by simp
next
  case False
  have "x < generate_id ids" if "x \<in> set ids" for x
  proof -
    have "x \<le> Max (set ids)" using that by (intro Max_ge) auto
    with False show ?thesis by (simp add: generate_id_def)
  qed
  then show ?thesis by blast
qed

lemma update_first_length [simp]: "length (update_first P f xs) = length xs"
  by (induction xs) auto


lemma update_first_map: "(\<And>x. g (f x) = g x) \<Longrightarrow> map g (update_first P f xs) = map g xs"
  by (induction xs) auto

lemma find_update_first:
  "(\<And>x. P (f x) = P x) \<Longrightarrow> find P (update_first P f xs) = map_option f (find P xs)"
  by (induction xs) auto

lemma update_position_eq:
  "update_position now pid updates upd_status st =
     st\<lparr>positions := update_first (\<lambda>p. pos_id p = pid) (apply_updates now updates upd_status)
                         (positions st)\<rparr>"
  by (simp add: update_position_def write_back_def load_positions_def save_positions_def)

lemmas venue_defs = get_price_def get_symbol_ticker_def create_market_buy_order_def
  create_market_sell_order_def create_order_def calculate_buy_quantity_def
  quantity_precision_def py_round_def round_half_even_def startswith_def dict_get_def
  get_balance_def initial_client_def str_replace_del.simps float_div_def to_float_def
  binade_def binade_up.simps binade_down.simps pow2_def

lemmas store_defs = get_open_positions_def save_trading_order_def save_position_def
  update_trading_order_def update_position_eq apply_updates_def generate_id_def

lemmas strategy_defs = execute_buy_def execute_sell_def check_trade_limits_def
  reset_daily_counters_def can_open_position_def record_trade_def

lemmas monitor_defs = monitor_iteration_def get_current_position_def get_all_positions_def
  sorted_desc_def price_update_def execute_stop_loss_def new_monitor_def update_stop_loss_def

section \<open>The risk gate\<close>

text \<open>
  Claim C5. After the daily rollover, and when the balance lookup returns a balance,
  \<open>check_trade_limits\<close> denies exactly when the daily trades have reached
  \<open>max_daily_trades\<close>, or the daily loss has reached \<open>daily_loss_limit\<close>, or the number of
  open positions has reached \<open>max_open_positions\<close>, or the USDT balance is below the
  trade amount; otherwise it allows. The counters it leaves are the rolled-over ones.
\<close>

theorem check_trade_limits_deny_iff:
  "get_balance c ''USDT'' = Inr usdt_balance \<Longrightarrow>
   (fst (check_trade_limits cfg today trade_amount st c rm) = False) =
     (daily_trades (reset_daily_counters today rm) \<ge> max_daily_trades cfg \<or>
      daily_loss (reset_daily_counters today rm) \<ge> daily_loss_limit cfg \<or>
      int (length (filter (\<lambda>p. pos_status p = Open) (positions st))) \<ge> max_open_positions cfg \<or>
      usdt_balance < trade_amount) \<and>
   snd (check_trade_limits cfg today trade_amount st c rm) = reset_daily_counters today rm"
  by (simp add: check_trade_limits_def Let_def get_open_positions_def)

theorem check_trade_limits_deny_iff_witness:
  "get_balance (initial_client (\<lambda>n. 0)) ''USDT'' = Inr 1000 \<and>
   fst (check_trade_limits default_config 0 10 empty_store (initial_client (\<lambda>n. 0))
          risk_at_limit) = False \<and>
   daily_trades (reset_daily_counters 0 risk_at_limit) \<ge> max_daily_trades default_config \<and>
   fst (check_trade_limits default_config 1 10 empty_store (initial_client (\<lambda>n. 0))
          risk_at_limit) = True"
proof -
  have h: "get_balance (initial_client (\<lambda>n. 0)) ''USDT'' = Inr 1000"
    by (simp add: venue_defs)
  from check_trade_limits_deny_iff [OF h, of default_config 0 10 empty_store risk_at_limit]
       check_trade_limits_deny_iff [OF h, of default_config 1 10 empty_store risk_at_limit]
  show ?thesis
    using h
    by (simp add: reset_daily_counters_def risk_at_limit_def default_config_def
          empty_store_def)
qed

section \<open>Opening a position\<close>

lemma execute_buy_success:
  assumes "fst (execute_buy cfg now today sg w) = Inr (Some r)"
  shows "\<exists>quantity c1 current_price c2 order c3.
      calculate_buy_quantity (sig_symbol sg)
         (dict_get (trade_amounts cfg) (sig_symbol sg) (trade_amount_usdt cfg)) (venue w)
        = (Inr quantity, c1) \<and>
      get_price (sig_symbol sg) c1 = (Inr current_price, c2) \<and>
      create_market_buy_order (sig_symbol sg) quantity c2 = (Inr order, c3) \<and>
      venue (snd (execute_buy cfg now today sg w)) = c3 \<and>
      res_position_id r = generate_id (map pos_id (positions (store w))) \<and>
      res_order r = order \<and>
      positions (store (snd (execute_buy cfg now today sg w))) = positions (store w) @
        [\<lparr> pos_id = generate_id (map pos_id (positions (store w))),
           pos_symbol = sig_symbol sg, pos_quantity = quantity,
           pos_entry_price = current_price, pos_current_price = current_price,
           pos_stop_loss_price = current_price * (1 - stop_loss_percentage cfg),
           pos_stop_loss_percentage = stop_loss_percentage cfg,
           pos_status = Open, pos_is_monitoring = True,
           pos_entry_order_id = generate_id (map ord_id (orders (store w))),
           pos_news_item_id = sig_news_id sg,
           pos_unrealized_pnl = None, pos_realized_pnl = None, pos_exit_order_id = None,
           pos_opened_at = now, pos_updated_at = now, pos_closed_at = None \<rparr>]"
  using assms
  by (auto simp: execute_buy_def Let_def save_position_def save_trading_order_def
        update_trading_order_def
      split: prod.splits sum.splits if_splits)

text \<open>
  Claim C6. A buy execution that succeeds appends one position to the store: it has the
  id the execution returns, which no earlier position has, its status is open, it is
  monitored, and its stop-loss price is its entry price times one minus the configured
  stop-loss percentage.
\<close>

theorem execute_buy_creates_position:
  "fst (execute_buy cfg now today sg w) = Inr (Some r) \<Longrightarrow>
   \<exists>p. positions (store (snd (execute_buy cfg now today sg w))) = positions (store w) @ [p] \<and>
       pos_id p = res_position_id r \<and>
       pos_id p \<notin> set (map pos_id (positions (store w))) \<and>
       pos_symbol p = sig_symbol sg \<and>
       pos_status p = Open \<and>
       pos_is_monitoring p \<and>
       pos_stop_loss_price p = pos_entry_price p * (1 - stop_loss_percentage cfg)"
proof -
  assume "fst (execute_buy cfg now today sg w) = Inr (Some r)"
  from execute_buy_success [OF this] obtain p where
    "positions (store (snd (execute_buy cfg now today sg w))) = positions (store w) @ [p]"
    "pos_id p = generate_id (map pos_id (positions (store w)))"
    "pos_id p = res_position_id r" "pos_symbol p = sig_symbol sg" "pos_status p = Open"
    "pos_is_monitoring p"
    "pos_stop_loss_price p = pos_entry_price p * (1 - stop_loss_percentage cfg)"
    by force
  then show ?thesis
    using generate_id_fresh [of "map pos_id (positions (store w))"] by (intro exI [of _ p]) simp
qed

lemma buy_in_fresh_world:
  "execute_buy default_config 5 0 btc_buy_signal (fresh_world (\<lambda>n. 0)) =
     (Inr (Some \<lparr> res_order_id = 1, res_position_id = 1, res_pnl = None,
                  res_order = \<lparr> mo_symbol = ''BTCUSDT'', mo_orderId = 1, mo_price = 45000,
                                mo_origQty = 222 / 1000000, mo_executedQty = 222 / 1000000,
                                mo_status = ''FILLED'', mo_side = BUY \<rparr> \<rparr>),
      \<lparr> store = \<lparr> positions = [btc_position],
                  orders = [\<lparr> ord_id = 1, ord_binance_order_id = 1, ord_symbol = ''BTCUSDT'',
                              ord_side = BUY, ord_quantity = 222 / 1000000, ord_price = 45000,
                              ord_status = ''FILLED'', ord_executed_quantity = 222 / 1000000,
                              ord_executed_price = 45000, ord_position_id = Some 1,
                              ord_news_item_id = Some 1, ord_created_at = 5,
                              ord_updated_at = 5 \<rparr>] \<rparr>,
        venue = (initial_client (\<lambda>n. 0))
                  \<lparr> account_balance := [(''USDT'', 1000 - 222 / 1000000 * 45000),
                        (''BTC'', 222 / 1000000), (''ETH'', 0), (''BNB'', 0), (''ADA'', 0),
                        (''SOL'', 0)],
                    client_orders := [(1, \<lparr> mo_symbol = ''BTCUSDT'', mo_orderId = 1,
                        mo_price = 45000, mo_origQty = 222 / 1000000,
                        mo_executedQty = 222 / 1000000, mo_status = ''FILLED'',
                        mo_side = BUY \<rparr>)],
                    order_id_counter := 2, draws := 3 \<rparr>,
        risk = \<lparr> daily_trades = 1, daily_loss = 0, open_positions_count = 0,
                 last_reset = 0 \<rparr> \<rparr>)"
  by (simp add: strategy_defs store_defs venue_defs default_config_def fresh_world_def
        fresh_risk_def empty_store_def btc_buy_signal_def btc_position_def Let_def)

theorem execute_buy_creates_position_witness:
  "fst (execute_buy default_config 5 0 btc_buy_signal (fresh_world (\<lambda>n. 0))) =
     Inr (Some \<lparr> res_order_id = 1, res_position_id = 1, res_pnl = None,
                  res_order = \<lparr> mo_symbol = ''BTCUSDT'', mo_orderId = 1, mo_price = 45000,
                                mo_origQty = 222 / 1000000, mo_executedQty = 222 / 1000000,
                                mo_status = ''FILLED'', mo_side = BUY \<rparr> \<rparr>) \<and>
   positions (store (snd (execute_buy default_config 5 0 btc_buy_signal
                            (fresh_world (\<lambda>n. 0))))) = [btc_position] \<and>
   (\<exists>p. [btc_position] = [p] \<and> pos_id p = 1 \<and> pos_status p = Open \<and> pos_is_monitoring p \<and>
        pos_stop_loss_price p = pos_entry_price p * (1 - 1 / 10)) \<and>
   pos_entry_price btc_position = 45000 \<and> pos_stop_loss_price btc_position = 40500"
proof -
  let ?r = "\<lparr> res_order_id = 1, res_position_id = 1, res_pnl = None,
                  res_order = \<lparr> mo_symbol = ''BTCUSDT'', mo_orderId = 1, mo_price = 45000,
                                mo_origQty = 222 / 1000000, mo_executedQty = 222 / 1000000,
                                mo_status = ''FILLED'', mo_side = BUY \<rparr> \<rparr>"
  have h: "fst (execute_buy default_config 5 0 btc_buy_signal (fresh_world (\<lambda>n. 0))) =
      Inr (Some ?r)"
    by (simp add: buy_in_fresh_world)
  have ps: "positions (store (snd (execute_buy default_config 5 0 btc_buy_signal
                            (fresh_world (\<lambda>n. 0))))) = [btc_position]"
    by (simp add: buy_in_fresh_world)
  from execute_buy_creates_position [OF h]
  have "\<exists>p. [btc_position] = [p] \<and> pos_id p = 1 \<and> pos_status p = Open \<and> pos_is_monitoring p \<and>
        pos_stop_loss_price p = pos_entry_price p * (1 - 1 / 10)"
    unfolding ps by (auto simp: fresh_world_def empty_store_def default_config_def)
  with h ps show ?thesis by (simp add: btc_position_def)
qed

section \<open>The trading summary\<close>

text \<open>
  Claim C7. The summary is to hold the count of open positions and the list of open
  positions as two entries. The dict display of \<open>get_trading_summary\<close> writes both under
  the key \<open>open_positions\<close>, so the dict it returns has six keys, and the value at
  \<open>open_positions\<close> is the list: the count is in no entry.
\<close>

theorem trading_summary_open_positions_entry:
  "map fst (get_trading_summary cfg w) =
     [''total_trades'', ''open_positions'', ''total_pnl'', ''balances'', ''recent_orders'',
      ''risk_stats''] \<and>
   map_of (get_trading_summary cfg w) ''open_positions'' =
     Some (Position_list (get_open_positions (store w))) \<and>
   map_of (get_trading_summary cfg w) ''open_positions'' \<noteq>
     Some (Count (length (get_open_positions (store w))))"
  by (simp add: get_trading_summary_def Let_def dict_of_items_def)

section \<open>Changing a stop-loss threshold\<close>

text \<open>
  Claim C9, as stated, speaks of a live monitor. \<open>update_stop_loss\<close> tests
  \<open>position_id in self.monitors\<close> and never reads \<open>monitor.running\<close>; a monitor whose loop has
  ended stays in the dict until the next pass of the management loop. After a buy the
  threshold of position 1 is raised to 45500; the next pass of its monitor executes the
  stop-loss and the loop ends. A call of \<open>update_stop_loss\<close> before the management loop
  has removed the monitor does not report that there is no monitor: it logs an update and
  rewrites the \<open>stop_loss_price\<close> of the stopped position.
\<close>

theorem update_stop_loss_on_ended_monitor:
  "map_of (fst raised_registry_store) 1 = Some eager_monitor \<and>
   monitor_loop [8] eager_monitor world_after_raise = Some (ended_monitor, world_after_stop) \<and>
   mon_running ended_monitor = False \<and>
   map (\<lambda>p. (pos_id p, pos_status p, pos_stop_loss_price p))
     (positions (store world_after_stop)) = [(1, Stopped, 45500)] \<and>
   fst (update_stop_loss 9 1 44000 [(1, ended_monitor)] (store world_after_stop)) =
     Inr (Updated_stop_loss 45500 44000) \<and>
   fst (snd (update_stop_loss 9 1 44000 [(1, ended_monitor)] (store world_after_stop))) =
     [(1, ended_monitor\<lparr>mon_stop_loss_price := 44000\<rparr>)] \<and>
   map (\<lambda>p. (pos_id p, pos_status p, pos_stop_loss_price p))
     (positions (snd (snd (update_stop_loss 9 1 44000 [(1, ended_monitor)]
                             (store world_after_stop))))) = [(1, Stopped, 44000)] \<and>
   snd (snd (update_stop_loss 9 1 44000 [(1, ended_monitor)] (store world_after_stop))) \<noteq>
     store world_after_stop"
proof -
  note defs = raised_registry_store_def eager_monitor_def world_after_raise_def
    world_after_stop_def ended_monitor_def btc_monitor_def monitor_defs world_after_buy_def
    strategy_defs store_defs venue_defs default_config_def fresh_world_def fresh_risk_def
    empty_store_def btc_buy_signal_def btc_position_def Let_def
  have e0: "map_of (fst raised_registry_store) 1 = Some eager_monitor"
    by (simp add: raised_registry_store_def eager_monitor_def update_stop_loss_def Let_def)
  have e1: "monitor_loop [8] eager_monitor world_after_raise =
      Some (ended_monitor, world_after_stop)"
    by (simp add: defs)
  have e2: "mon_running ended_monitor = False"
    by (simp add: ended_monitor_def)
  have e3: "map (\<lambda>p. (pos_id p, pos_status p, pos_stop_loss_price p))
     (positions (store world_after_stop)) = [(1, Stopped, 45500)]"
    by (simp add: defs)
  have e4: "fst (update_stop_loss 9 1 44000 [(1, ended_monitor)] (store world_after_stop)) =
     Inr (Updated_stop_loss 45500 44000)"
    by (simp add: update_stop_loss_def Let_def ended_monitor_def eager_monitor_def)
  have e5: "fst (snd (update_stop_loss 9 1 44000 [(1, ended_monitor)] (store world_after_stop))) =
     [(1, ended_monitor\<lparr>mon_stop_loss_price := 44000\<rparr>)]"
    by (simp add: update_stop_loss_def Let_def)
  have e6: "map (\<lambda>p. (pos_id p, pos_status p, pos_stop_loss_price p))
     (positions (snd (snd (update_stop_loss 9 1 44000 [(1, ended_monitor)]
                             (store world_after_stop))))) = [(1, Stopped, 44000)]"
    by (simp add: defs)
  from e3 e6 have e7:
    "snd (snd (update_stop_loss 9 1 44000 [(1, ended_monitor)] (store world_after_stop))) \<noteq>
     store world_after_stop"
    by auto
  from e0 e1 e2 e3 e4 e5 e6 e7 show ?thesis by blast
qed

text \<open>
  Claim C9, amended. \<open>update_stop_loss\<close> for a position id that has a monitor in the dict of
  the manager, whether its loop is running or has ended, sets the threshold of that monitor
  to the new price and writes the new price to the \<open>stop_loss_price\<close> of the stored
  position with that id; for an id without a monitor in the dict it logs that there is
  none, raises nothing, and leaves the monitors and the store as they are.
\<close>

theorem update_stop_loss_effect:
  "(\<forall>m. map_of monitors pid = Some m \<longrightarrow>
      (\<exists>monitors' st'.
         update_stop_loss now pid new_price monitors st =
           (Inr (Updated_stop_loss (mon_stop_loss_price m) new_price), monitors', st') \<and>
         map_of monitors' pid = Some (m\<lparr>mon_stop_loss_price := new_price\<rparr>) \<and>
         (\<forall>p. find (\<lambda>p. pos_id p = pid) (positions st) = Some p \<longrightarrow>
            find (\<lambda>p. pos_id p = pid) (positions st') =
              Some (p\<lparr>pos_stop_loss_price := new_price, pos_updated_at := now\<rparr>)))) \<and>
   (map_of monitors pid = None \<longrightarrow>
      update_stop_loss now pid new_price monitors st = (Inr No_monitor_found, monitors, st))"
  by (auto simp: update_stop_loss_def Let_def update_position_eq apply_updates_def
        find_update_first update_conv)

theorem update_stop_loss_effect_witness:
  "map_of [(1::int, new_monitor btc_position)] 1 = Some (new_monitor btc_position) \<and>
   map_of (fst (snd (update_stop_loss 9 1 44500 [(1, new_monitor btc_position)] btc_store))) 1 =
     Some ((new_monitor btc_position)\<lparr>mon_stop_loss_price := 44500\<rparr>) \<and>
   find (\<lambda>p. pos_id p = 1) (positions btc_store) = Some btc_position \<and>
   find (\<lambda>p. pos_id p = 1)
     (positions (snd (snd (update_stop_loss 9 1 44500 [(1, new_monitor btc_position)]
                             btc_store)))) =
     Some (btc_position\<lparr>pos_stop_loss_price := 44500, pos_updated_at := 9\<rparr>) \<and>
   map_of [(1::int, new_monitor btc_position)] 2 = None \<and>
   update_stop_loss 9 2 44500 [(1, new_monitor btc_position)] btc_store =
     (Inr No_monitor_found, [(1, new_monitor btc_position)], btc_store)"
proof -
  have m: "map_of [(1::int, new_monitor btc_position)] 1 = Some (new_monitor btc_position)"
    by simp
  have f: "find (\<lambda>p. pos_id p = 1) (positions btc_store) = Some btc_position"
    by (simp add: btc_store_def btc_position_def)
  have n: "map_of [(1::int, new_monitor btc_position)] 2 = None"
    by simp
  from update_stop_loss_effect [of "[(1, new_monitor btc_position)]" 1 9 44500 btc_store] m f
  have "map_of (fst (snd (update_stop_loss 9 1 44500 [(1, new_monitor btc_position)]
                            btc_store))) 1 =
     Some ((new_monitor btc_position)\<lparr>mon_stop_loss_price := 44500\<rparr>) \<and>
   find (\<lambda>p. pos_id p = 1)
     (positions (snd (snd (update_stop_loss 9 1 44500 [(1, new_monitor btc_position)]
                             btc_store)))) =
     Some (btc_position\<lparr>pos_stop_loss_price := 44500, pos_updated_at := 9\<rparr>)"
    by auto
  moreover
  from update_stop_loss_effect [of "[(1, new_monitor btc_position)]" 2 9 44500 btc_store] n
  have "update_stop_loss 9 2 44500 [(1, new_monitor btc_position)] btc_store =
     (Inr No_monitor_found, [(1, new_monitor btc_position)], btc_store)"
    by blast
  ultimately show ?thesis using m f n by blast
qed

section \<open>The quantity of a buy\<close>

lemma update_first_snoc:
  "\<forall>y \<in> set xs. \<not> P y \<Longrightarrow> P x \<Longrightarrow> update_first P f (xs @ [x]) = xs @ [f x]"
  by (induction xs) auto

lemma fresh_order_id: "y \<in> set xs \<Longrightarrow> ord_id y \<noteq> generate_id (map ord_id xs)"
  using generate_id_fresh [of "map ord_id xs"] by (metis image_eqI list.set_map)

lemma execute_buy_orders:
  assumes "fst (execute_buy cfg now today sg w) = Inr (Some r)"
  shows "\<exists>quantity c1 od.
      calculate_buy_quantity (sig_symbol sg)
         (dict_get (trade_amounts cfg) (sig_symbol sg) (trade_amount_usdt cfg)) (venue w)
        = (Inr quantity, c1) \<and>
      orders (store (snd (execute_buy cfg now today sg w))) = orders (store w) @ [od] \<and>
      ord_quantity od = quantity \<and> ord_side od = BUY \<and> ord_symbol od = sig_symbol sg \<and>
      ord_position_id od = Some (res_position_id r) \<and> ord_id od = res_order_id r"
  using assms
  by (auto simp: execute_buy_def Let_def save_position_def save_trading_order_def
        update_trading_order_def update_first_snoc fresh_order_id
      split: prod.splits sum.splits if_splits)

lemma create_order_quantity:
  "create_order symbol sd q c = (Inr order, c') \<Longrightarrow>
     mo_origQty order = q \<and> mo_executedQty order = q \<and> mo_symbol order = symbol \<and> mo_side order = sd"
  by (auto simp: create_order_def Let_def split: prod.splits sum.splits if_splits side.splits option.splits)

lemma create_market_buy_order_quantity:
  "create_market_buy_order symbol q c = (Inr order, c') \<Longrightarrow>
     mo_origQty order = q \<and> mo_executedQty order = q"
  by (auto simp: create_market_buy_order_def split: prod.splits sum.splits dest: create_order_quantity)

lemma calculate_buy_quantity_success:
  "calculate_buy_quantity symbol amount c = (Inr q, c1) \<Longrightarrow>
    \<exists>price. get_price symbol c = (Inr price, c1) \<and> price \<noteq> 0 \<and>
       q = py_round (float_div amount price) (quantity_precision symbol)"
  by (auto simp: calculate_buy_quantity_def split: prod.splits sum.splits if_splits)

lemma round_half_even_near: "\<bar>of_int (round_half_even y) - y\<bar> \<le> 1 / 2"
proof -
  have "of_int \<lfloor>y\<rfloor> \<le> y" "y < of_int \<lfloor>y\<rfloor> + 1" by linarith+
  then show ?thesis
    by (auto simp: round_half_even_def Let_def)
qed

lemma pow2_powi: "pow2 e = 2 powi e"
  by (simp add: pow2_def power_int_def inverse_eq_divide power_one_over)

lemma pow2_pos: "0 < pow2 e"
  by (simp add: pow2_def)

lemma pow2_add: "pow2 (a + b) = pow2 a * pow2 b"
  by (simp add: pow2_powi power_int_add)

lemma pow2_0 [simp]: "pow2 0 = 1"
  by (simp add: pow2_def)

lemma pow2_1 [simp]: "pow2 1 = 2"
  by (simp add: pow2_def)

lemma pow2_52: "pow2 52 = 2 ^ 52"
  by (simp add: pow2_def)

lemma binade_up_bounds:
  "1 \<le> x \<Longrightarrow> pow2 (binade_up x e - e) \<le> x \<and> x < 2 * pow2 (binade_up x e - e)"
proof (induction x e rule: binade_up.induct)
  case (1 x e)
  show ?case
  proof (cases "x < 2")
    case True
    with 1 show ?thesis by (simp add: binade_up.simps [of x e])
  next
    case False
    then have "1 \<le> x / 2" by simp
    from 1(1) [OF False this]
    have ih: "pow2 (binade_up (x / 2) (e + 1) - (e + 1)) \<le> x / 2"
      "x / 2 < 2 * pow2 (binade_up (x / 2) (e + 1) - (e + 1))" by auto
    have b: "binade_up x e = binade_up (x / 2) (e + 1)"
      using False by (simp add: binade_up.simps [of x e])
    have "pow2 (binade_up x e - e) = pow2 (binade_up (x / 2) (e + 1) - (e + 1)) * 2"
      unfolding b using pow2_add [of "binade_up (x / 2) (e + 1) - (e + 1)" 1]
      by (simp add: algebra_simps)
    with ih show ?thesis by simp
  qed
qed

lemma binade_down_bounds:
  "0 < x \<Longrightarrow> x < 2 \<Longrightarrow>
     pow2 (binade_down x e - e) \<le> x \<and> x < 2 * pow2 (binade_down x e - e)"
proof (induction x e rule: binade_down.induct)
  case (1 x e)
  show ?case
  proof (cases "1 \<le> x")
    case True
    with 1 show ?thesis by (simp add: binade_down.simps [of x e])
  next
    case False
    with 1(2) have c: "\<not> (x \<le> 0 \<or> 1 \<le> x)" by simp
    have "0 < 2 * x" "2 * x < 2" using 1(2) False by simp_all
    from 1(1) [OF c this]
    have ih: "pow2 (binade_down (2 * x) (e - 1) - (e - 1)) \<le> 2 * x"
      "2 * x < 2 * pow2 (binade_down (2 * x) (e - 1) - (e - 1))" by auto
    have b: "binade_down x e = binade_down (2 * x) (e - 1)"
      using c by (simp add: binade_down.simps [of x e])
    have "pow2 (binade_down (2 * x) (e - 1) - (e - 1)) = pow2 (binade_down x e - e) * 2"
      unfolding b using pow2_add [of "binade_down (2 * x) (e - 1) - e" 1]
      by (simp add: algebra_simps)
    with ih show ?thesis by simp
  qed
qed

lemma binade_bounds: "0 < x \<Longrightarrow> pow2 (binade x) \<le> x \<and> x < 2 * pow2 (binade x)"
  using binade_up_bounds [of x 0] binade_down_bounds [of x 0]
  by (cases "1 \<le> x") (simp_all add: binade_def)

lemma to_float_near: "\<bar>to_float x - x\<bar> \<le> \<bar>x\<bar> / 2 ^ 53"
proof (cases "x = 0")
  case True
  then show ?thesis by (simp add: to_float_def)
next
  case False
  define e where "e = binade \<bar>x\<bar> - 52"
  define p where "p = pow2 e"
  have p: "0 < p" by (simp add: p_def pow2_pos)
  have tf: "to_float x = of_int (round_half_even (x / p)) * p"
    using False by (simp add: to_float_def e_def p_def Let_def)
  have "\<bar>to_float x - x\<bar> = \<bar>of_int (round_half_even (x / p)) - x / p\<bar> * p"
    unfolding tf using p by (simp add: field_simps abs_mult [symmetric] del: abs_mult)
  also have "\<dots> \<le> (1 / 2) * p"
    using round_half_even_near [of "x / p"] p by (intro mult_right_mono) auto
  finally have h: "\<bar>to_float x - x\<bar> \<le> p / 2" by simp
  have "pow2 (binade \<bar>x\<bar>) \<le> \<bar>x\<bar>" using binade_bounds [of "\<bar>x\<bar>"] False by simp
  moreover have "pow2 (binade \<bar>x\<bar>) = p * 2 ^ 52"
    using pow2_add [of e 52] by (simp add: e_def p_def pow2_52)
  ultimately have "p * 2 ^ 52 \<le> \<bar>x\<bar>" by simp
  then have "p / 2 \<le> \<bar>x\<bar> / 2 ^ 53" by (simp add: field_simps)
  with h show ?thesis by linarith
qed


lemma float_div_near: "\<bar>float_div a b - a / b\<bar> \<le> \<bar>a / b\<bar> / 2 ^ 53"
  unfolding float_div_def by (rule to_float_near)

lemma py_round_near: "\<bar>py_round x d - x\<bar> \<le> 1 / (2 * 10 ^ d)"
proof -
  have pos: "(0::real) < 10 ^ d" by simp
  have "\<bar>py_round x d - x\<bar> = \<bar>of_int (round_half_even (x * 10 ^ d)) - x * 10 ^ d\<bar> / 10 ^ d"
    using pos by (simp add: py_round_def field_simps abs_divide)
  also have "\<dots> \<le> (1 / 2) / 10 ^ d"
    using round_half_even_near [of "x * 10 ^ d"] pos by (intro divide_right_mono) auto
  finally show ?thesis by simp
qed

lemma py_round_grid: "\<exists>k::int. py_round x d = of_int k / 10 ^ d"
  by (auto simp: py_round_def)

text \<open>
  The rounding of the division decides the quantity at a tie of the decimal rounding:
  0.4375 USDT at the BNBUSDT quote of 350 have the exact quotient 0.00125, half way
  between 0.0012 and 0.0013; the float quotient lies above it, and the quantity is 0.0013,
  as in Python, where the exact quotient rounded half to even is 0.0012.
\<close>

lemma calculate_buy_quantity_float_tie:
  "fst (calculate_buy_quantity ''BNBUSDT'' (4375 / 10000) (initial_client (\<lambda>n. 0))) =
     Inr (13 / 10000) \<and>
   py_round ((4375 / 10000) / 350) 4 = 12 / 10000 \<and>
   (4375 / 10000) / 350 < float_div (4375 / 10000) 350"
  by (simp add: venue_defs Let_def)

text \<open>
  Claim C8, as stated: the quantity of a successful buy is the trade amount divided by the
  price recorded as the entry price of the position, rounded. It fails: the quantity is
  computed from the quote that \<open>calculate_buy_quantity\<close> fetches, the entry price is a
  second quote. With a second quote 2 percent above the first, 10 USDT buy 0.000222 BTC
  (from 45000) at a recorded entry price of 45900, for which the claim gives 0.000218
  (the float quotient \<open>10 / 45900\<close> rounded to 6 places).
\<close>

theorem buy_quantity_not_from_entry_price:
  "(\<exists>r. fst (execute_buy default_config 5 0 btc_buy_signal (fresh_world second_quote_up)) =
         Inr (Some r)) \<and>
   dict_get (trade_amounts default_config) (sig_symbol btc_buy_signal)
     (trade_amount_usdt default_config) = 10 \<and>
   map pos_entry_price (positions (store (snd (execute_buy default_config 5 0 btc_buy_signal
       (fresh_world second_quote_up))))) = [45900] \<and>
   map pos_quantity (positions (store (snd (execute_buy default_config 5 0 btc_buy_signal
       (fresh_world second_quote_up))))) = [222 / 1000000] \<and>
   py_round (float_div 10 45900) 6 = 218 / 1000000 \<and>
   (222 / 1000000 :: real) \<noteq> py_round (float_div 10 45900) 6"
  by (simp add: strategy_defs store_defs venue_defs default_config_def fresh_world_def
        fresh_risk_def empty_store_def btc_buy_signal_def second_quote_up_def Let_def)

text \<open>
  Claim C8, amended. A successful buy fetches a quote \<open>P\<close>, which is not zero, and then a
  second quote \<open>E\<close>. The quantity it submits to the venue and persists in the order and
  in the position is the float quotient of the trade amount by \<open>P\<close> (the exact quotient
  rounded to a double, so within a relative error of \<open>2 ** -53\<close> of it), rounded to 6
  decimal places when the symbol contains \<open>BTC\<close>, else to 5 when it contains \<open>ETH\<close>, else
  to 4: a multiple of the unit of that precision at most half a unit from the float
  quotient. The entry price of the position is \<open>E\<close>.
\<close>

theorem buy_quantity_rounded:
  assumes "fst (execute_buy cfg now today sg w) = Inr (Some r)"
  shows "\<exists>P c1 E c2 p od.
      get_price (sig_symbol sg) (venue w) = (Inr P, c1) \<and> P \<noteq> 0 \<and>
      get_price (sig_symbol sg) c1 = (Inr E, c2) \<and>
      positions (store (snd (execute_buy cfg now today sg w))) = positions (store w) @ [p] \<and>
      orders (store (snd (execute_buy cfg now today sg w))) = orders (store w) @ [od] \<and>
      pos_entry_price p = E \<and>
      pos_quantity p =
        py_round
          (float_div (dict_get (trade_amounts cfg) (sig_symbol sg) (trade_amount_usdt cfg)) P)
          (if str_in ''BTC'' (sig_symbol sg) then 6
           else if str_in ''ETH'' (sig_symbol sg) then 5 else 4) \<and>
      ord_quantity od = pos_quantity p \<and>
      mo_origQty (res_order r) = pos_quantity p \<and>
      \<bar>pos_quantity p -
         float_div (dict_get (trade_amounts cfg) (sig_symbol sg) (trade_amount_usdt cfg)) P\<bar>
        \<le> 1 / (2 * 10 ^ quantity_precision (sig_symbol sg)) \<and>
      \<bar>float_div (dict_get (trade_amounts cfg) (sig_symbol sg) (trade_amount_usdt cfg)) P -
         dict_get (trade_amounts cfg) (sig_symbol sg) (trade_amount_usdt cfg) / P\<bar>
        \<le> \<bar>dict_get (trade_amounts cfg) (sig_symbol sg) (trade_amount_usdt cfg) / P\<bar> / 2 ^ 53 \<and>
      (\<exists>k::int. pos_quantity p = of_int k / 10 ^ quantity_precision (sig_symbol sg))"
proof -
  let ?A = "dict_get (trade_amounts cfg) (sig_symbol sg) (trade_amount_usdt cfg)"
  let ?w' = "snd (execute_buy cfg now today sg w)"
  from execute_buy_success [OF assms] obtain quantity c1 E c2 order c3 p where
    q: "calculate_buy_quantity (sig_symbol sg) ?A (venue w) = (Inr quantity, c1)" and
    e: "get_price (sig_symbol sg) c1 = (Inr E, c2)" and
    o: "create_market_buy_order (sig_symbol sg) quantity c2 = (Inr order, c3)" and
    r: "res_order r = order" and
    ps: "positions (store ?w') = positions (store w) @ [p]" and
    p: "pos_entry_price p = E" "pos_quantity p = quantity"
    by force
  from execute_buy_orders [OF assms] q obtain od where
    od: "orders (store ?w') = orders (store w) @ [od]" "ord_quantity od = quantity"
    by auto
  from calculate_buy_quantity_success [OF q] obtain P where
    P: "get_price (sig_symbol sg) (venue w) = (Inr P, c1)" "P \<noteq> 0"
       "quantity = py_round (float_div ?A P) (quantity_precision (sig_symbol sg))"
    by blast
  have prec: "quantity_precision (sig_symbol sg) =
      (if str_in ''BTC'' (sig_symbol sg) then 6 else if str_in ''ETH'' (sig_symbol sg) then 5 else 4)"
    by (simp add: quantity_precision_def)
  have near: "\<bar>quantity - float_div ?A P\<bar>
      \<le> 1 / (2 * 10 ^ quantity_precision (sig_symbol sg))"
    unfolding P(3) by (rule py_round_near)
  have fl: "\<bar>float_div ?A P - ?A / P\<bar> \<le> \<bar>?A / P\<bar> / 2 ^ 53"
    by (rule float_div_near)
  have grid: "\<exists>k::int. quantity = of_int k / 10 ^ quantity_precision (sig_symbol sg)"
    unfolding P(3) by (rule py_round_grid)
  have sub: "mo_origQty (res_order r) = quantity"
    using create_market_buy_order_quantity [OF o] r by simp
  show ?thesis
    apply (rule exI [of _ P], rule exI [of _ c1], rule exI [of _ E], rule exI [of _ c2],
           rule exI [of _ p], rule exI [of _ od])
    using P(1,2) e ps od p sub near fl grid P(3) prec by simp
qed

theorem buy_quantity_rounded_witness:
  "fst (execute_buy default_config 5 0 btc_buy_signal (fresh_world second_quote_up)) =
     Inr (Some \<lparr> res_order_id = 1, res_position_id = 1, res_pnl = None,
                  res_order = \<lparr> mo_symbol = ''BTCUSDT'', mo_orderId = 1, mo_price = 45000,
                                mo_origQty = 222 / 1000000, mo_executedQty = 222 / 1000000,
                                mo_status = ''FILLED'', mo_side = BUY \<rparr> \<rparr>) \<and>
   (\<exists>P c1 E c2 p.
      get_price ''BTCUSDT'' (initial_client second_quote_up) = (Inr P, c1) \<and> P \<noteq> 0 \<and>
      get_price ''BTCUSDT'' c1 = (Inr E, c2) \<and>
      positions (store (snd (execute_buy default_config 5 0 btc_buy_signal
                               (fresh_world second_quote_up)))) = [p] \<and>
      pos_entry_price p = E \<and>
      pos_quantity p = py_round (float_div 10 P) 6 \<and>
      \<bar>pos_quantity p - float_div 10 P\<bar> \<le> 1 / (2 * 10 ^ 6) \<and>
      \<bar>float_div 10 P - 10 / P\<bar> \<le> \<bar>10 / P\<bar> / 2 ^ 53) \<and>
   get_price ''BTCUSDT'' (initial_client second_quote_up) =
     (Inr 45000, (initial_client second_quote_up)\<lparr>draws := 1\<rparr>) \<and>
   get_price ''BTCUSDT'' ((initial_client second_quote_up)\<lparr>draws := 1\<rparr>) =
     (Inr 45900, (initial_client second_quote_up)\<lparr>draws := 2\<rparr>)"
proof -
  have h: "fst (execute_buy default_config 5 0 btc_buy_signal (fresh_world second_quote_up)) =
     Inr (Some \<lparr> res_order_id = 1, res_position_id = 1, res_pnl = None,
                  res_order = \<lparr> mo_symbol = ''BTCUSDT'', mo_orderId = 1, mo_price = 45000,
                                mo_origQty = 222 / 1000000, mo_executedQty = 222 / 1000000,
                                mo_status = ''FILLED'', mo_side = BUY \<rparr> \<rparr>)"
    by (simp add: strategy_defs store_defs venue_defs default_config_def fresh_world_def
        fresh_risk_def empty_store_def btc_buy_signal_def second_quote_up_def Let_def)
  have g1: "get_price ''BTCUSDT'' (initial_client second_quote_up) =
     (Inr 45000, (initial_client second_quote_up)\<lparr>draws := 1\<rparr>)"
    by (simp add: venue_defs second_quote_up_def)
  have g2: "get_price ''BTCUSDT'' ((initial_client second_quote_up)\<lparr>draws := 1\<rparr>) =
     (Inr 45900, (initial_client second_quote_up)\<lparr>draws := 2\<rparr>)"
    by (simp add: venue_defs second_quote_up_def)
  have c: "dict_get (trade_amounts default_config) ''BTCUSDT''
     (trade_amount_usdt default_config) = 10"
    "sig_symbol btc_buy_signal = ''BTCUSDT''" "str_in ''BTC'' ''BTCUSDT''"
    "quantity_precision ''BTCUSDT'' = 6"
    "venue (fresh_world second_quote_up) = initial_client second_quote_up"
    "positions (store (fresh_world second_quote_up)) = []"
    by (simp_all add: dict_get_def default_config_def btc_buy_signal_def startswith_def
          quantity_precision_def fresh_world_def empty_store_def)
  from buy_quantity_rounded [OF h]
  have "\<exists>P c1 E c2 p.
      get_price ''BTCUSDT'' (initial_client second_quote_up) = (Inr P, c1) \<and> P \<noteq> 0 \<and>
      get_price ''BTCUSDT'' c1 = (Inr E, c2) \<and>
      positions (store (snd (execute_buy default_config 5 0 btc_buy_signal
                               (fresh_world second_quote_up)))) = [p] \<and>
      pos_entry_price p = E \<and>
      pos_quantity p = py_round (float_div 10 P) 6 \<and>
      \<bar>pos_quantity p - float_div 10 P\<bar> \<le> 1 / (2 * 10 ^ 6) \<and>
      \<bar>float_div 10 P - 10 / P\<bar> \<le> \<bar>10 / P\<bar> / 2 ^ 53"
    apply (elim exE conjE)
    subgoal for P c1 E c2 p od k
      apply (rule exI [of _ P], rule exI [of _ c1], rule exI [of _ E], rule exI [of _ c2],
             rule exI [of _ p])
      by (simp add: c startswith_def)
    done
  with h g1 g2 show ?thesis by blast
qed

section \<open>Closing a position\<close>

lemma execute_stop_loss_risk: "risk (snd (execute_stop_loss now m price w)) = risk w"
  by (simp add: execute_stop_loss_def Let_def split: prod.split sum.split)

text \<open>
  Claim C3 says that both close paths write the realized profit and loss computed from the execution
  price the venue reports for the sell order, and pass it to \<open>record_trade\<close>. Neither path
  does both. A process buys BTC at quotes of 45000 and then executes a sell signal: the
  quote \<open>_execute_sell\<close> fetches is 45000, the order executes at 44100; the position is
  closed with a realized profit and loss of 0, not of (44100 - 45000) * 0.000222 = -0.1998, and the
  daily loss stays 0. \<open>_execute_stop_loss\<close> computes from the execution price, and never
  changes the risk counters.
\<close>

theorem close_paths_miss_pnl_or_record:
  "map pos_status (positions (store (snd (execute_sell 7 btc_sell_signal
      (snd (execute_buy default_config 5 0 btc_buy_signal (fresh_world sell_quote_down))))))) =
     [Closed] \<and>
   map pos_entry_price (positions (store (snd (execute_sell 7 btc_sell_signal
      (snd (execute_buy default_config 5 0 btc_buy_signal (fresh_world sell_quote_down))))))) =
     [45000] \<and>
   map pos_quantity (positions (store (snd (execute_sell 7 btc_sell_signal
      (snd (execute_buy default_config 5 0 btc_buy_signal (fresh_world sell_quote_down))))))) =
     [222 / 1000000] \<and>
   map (\<lambda>od. (ord_side od, ord_executed_price od)) (orders (store (snd (execute_sell 7
      btc_sell_signal
      (snd (execute_buy default_config 5 0 btc_buy_signal (fresh_world sell_quote_down))))))) =
     [(BUY, 45000), (SELL, 44100)] \<and>
   map pos_realized_pnl (positions (store (snd (execute_sell 7 btc_sell_signal
      (snd (execute_buy default_config 5 0 btc_buy_signal (fresh_world sell_quote_down))))))) =
     [Some 0] \<and>
   (44100 - 45000) * (222 / 1000000) = (- (1998 / 10000) :: real) \<and>
   daily_loss (risk (snd (execute_sell 7 btc_sell_signal
      (snd (execute_buy default_config 5 0 btc_buy_signal (fresh_world sell_quote_down)))))) =
     0 \<and>
   (\<forall>now m price w. risk (snd (execute_stop_loss now m price w)) = risk w)"
proof -
  obtain r1 w1 where b:
    "execute_buy default_config 5 0 btc_buy_signal (fresh_world sell_quote_down) = (r1, w1)"
    by (cases "execute_buy default_config 5 0 btc_buy_signal (fresh_world sell_quote_down)")
  obtain r2 w2 where s: "execute_sell 7 btc_sell_signal w1 = (r2, w2)"
    by (cases "execute_sell 7 btc_sell_signal w1")
  from b s have "map pos_status (positions (store w2)) = [Closed] \<and>
      map pos_entry_price (positions (store w2)) = [45000] \<and>
      map pos_quantity (positions (store w2)) = [222 / 1000000] \<and>
      map (\<lambda>od. (ord_side od, ord_executed_price od)) (orders (store w2)) =
        [(BUY, 45000), (SELL, 44100)] \<and>
      map pos_realized_pnl (positions (store w2)) = [Some 0] \<and>
      daily_loss (risk w2) = 0"
    by (auto simp add: strategy_defs store_defs venue_defs default_config_def fresh_world_def
          fresh_risk_def empty_store_def btc_buy_signal_def btc_sell_signal_def
          sell_quote_down_def Let_def)
  then show ?thesis
    by (simp add: b s execute_stop_loss_risk)
qed

section \<open>A stop-loss that fails\<close>

lemma price_update_status:
  "map pos_status (positions (price_update now m price st)) = map pos_status (positions st)"
  by (simp add: price_update_def update_position_eq apply_updates_def Let_def
        update_first_map)

lemma execute_stop_loss_failure:
  assumes "execute_stop_loss now m price w = (Inl e, w')"
  shows "e = StopLossError \<and> store w' = store w \<and> risk w' = risk w"
  using assms
  by (auto simp: execute_stop_loss_def Let_def create_market_sell_order_def
       split: prod.splits sum.splits)

text \<open>
  Claim C4, as stated: after a stop-loss close attempt that fails, the loop of the monitor
  ends and makes no further pass, price fetch or close attempt. It fails: the exception
  reaches the handler of the loop, which sleeps and goes on. In a process restarted on a
  store with an open position, the client holds no BTC, the close attempt of the first
  pass fails, and the second pass fetches the price and attempts the close again (four
  quotes drawn and two order ids used after two passes); the loop has not ended.
\<close>

theorem failed_stop_loss_polls_again:
  "fst (execute_stop_loss 10 raised_monitor 44100
          (restarted_world\<lparr>store := price_update 10 raised_monitor 44100 (store restarted_world),
                            venue := snd (get_price ''BTCUSDT'' (venue restarted_world))\<rparr>)) =
     Inl StopLossError \<and>
   fst (monitor_iteration 10 raised_monitor restarted_world) = Sleep \<and>
   draws (venue (snd (monitor_iteration 10 raised_monitor restarted_world))) = 2 \<and>
   order_id_counter (venue (snd (monitor_iteration 10 raised_monitor restarted_world))) = 2 \<and>
   fst (monitor_iteration 20 raised_monitor
          (snd (monitor_iteration 10 raised_monitor restarted_world))) = Sleep \<and>
   draws (venue (snd (monitor_iteration 20 raised_monitor
          (snd (monitor_iteration 10 raised_monitor restarted_world))))) = 4 \<and>
   order_id_counter (venue (snd (monitor_iteration 20 raised_monitor
          (snd (monitor_iteration 10 raised_monitor restarted_world))))) = 3 \<and>
   monitor_loop [10, 20] raised_monitor restarted_world = None"
proof -
  have a: "fst (execute_stop_loss 10 raised_monitor 44100
          (restarted_world\<lparr>store := price_update 10 raised_monitor 44100 (store restarted_world),
                            venue := snd (get_price ''BTCUSDT'' (venue restarted_world))\<rparr>)) =
     Inl StopLossError"
    by (simp add: execute_stop_loss_def raised_monitor_def restarted_world_def
          raised_position_def new_monitor_def btc_position_def venue_defs Let_def)
  obtain t1 w1 where p1: "monitor_iteration 10 raised_monitor restarted_world = (t1, w1)"
    by (cases "monitor_iteration 10 raised_monitor restarted_world")
  obtain t2 w2 where p2: "monitor_iteration 20 raised_monitor w1 = (t2, w2)"
    by (cases "monitor_iteration 20 raised_monitor w1")
  from p1 p2 have "t1 = Sleep \<and> t2 = Sleep \<and> draws (venue w1) = 2 \<and>
      order_id_counter (venue w1) = 2 \<and> draws (venue w2) = 4 \<and>
      order_id_counter (venue w2) = 3 \<and>
      monitor_loop [10, 20] raised_monitor restarted_world = None"
    by (auto simp add: monitor_iteration_def get_current_position_def get_all_positions_def
          sorted_desc_def price_update_def execute_stop_loss_def raised_monitor_def
          restarted_world_def raised_position_def new_monitor_def btc_position_def
          fresh_risk_def store_defs venue_defs Let_def)
  with a show ?thesis by (simp add: p1 p2)
qed

text \<open>
  Claim C4, amended. When the stop-loss close attempt of a pass fails, the pass ends in
  the handler of the loop: the statuses of the stored positions are as before the pass,
  the monitor sleeps, and a monitor whose \<open>running\<close> flag is set goes on with its next
  pass.
\<close>

theorem failed_stop_loss_retries:
  assumes "get_current_position m (store w) = Some p" and "pos_status p = Open"
    and "get_price (mon_symbol m) (venue w) = (Inr price, c1)"
    and "price \<le> mon_stop_loss_price m"
    and "execute_stop_loss now m price
           (w\<lparr>store := price_update now m price (store w), venue := c1\<rparr>) = (Inl e, w2)"
    and "mon_running m"
  shows "monitor_iteration now m w = (Sleep, w2) \<and>
         monitor_loop (now # later) m w = monitor_loop later m w2 \<and>
         map pos_status (positions (store w2)) = map pos_status (positions (store w))"
proof -
  have it: "monitor_iteration now m w = (Sleep, w2)"
    using assms(1-5) by (simp add: monitor_iteration_def Let_def)
  have "store w2 = price_update now m price (store w)"
    using execute_stop_loss_failure [OF assms(5)] by simp
  then have "map pos_status (positions (store w2)) = map pos_status (positions (store w))"
    by (simp add: price_update_status)
  with it assms(6) show ?thesis by simp
qed

theorem failed_stop_loss_retries_witness:
  "get_current_position raised_monitor (store restarted_world) = Some raised_position \<and>
   pos_status raised_position = Open \<and>
   get_price (mon_symbol raised_monitor) (venue restarted_world) =
     (Inr 44100, (initial_client (\<lambda>n. - (2 / 100)))\<lparr>draws := 1\<rparr>) \<and>
   44100 \<le> mon_stop_loss_price raised_monitor \<and>
   fst (execute_stop_loss 10 raised_monitor 44100
     (restarted_world\<lparr>store := price_update 10 raised_monitor 44100 (store restarted_world),
                       venue := (initial_client (\<lambda>n. - (2 / 100)))\<lparr>draws := 1\<rparr>\<rparr>)) =
     Inl StopLossError \<and>
   mon_running raised_monitor \<and>
   fst (monitor_iteration 10 raised_monitor restarted_world) = Sleep \<and>
   monitor_loop [10, 20] raised_monitor restarted_world =
     monitor_loop [20] raised_monitor (snd (monitor_iteration 10 raised_monitor restarted_world)) \<and>
   map pos_status (positions (store (snd (monitor_iteration 10 raised_monitor
     restarted_world)))) = [Open]"
proof -
  let ?c1 = "(initial_client (\<lambda>n. - (2 / 100)))\<lparr>draws := 1\<rparr>"
  let ?w1 = "restarted_world\<lparr>store := price_update 10 raised_monitor 44100
               (store restarted_world), venue := ?c1\<rparr>"
  have h1: "get_current_position raised_monitor (store restarted_world) = Some raised_position"
    by (simp add: get_current_position_def get_all_positions_def sorted_desc_def
          raised_monitor_def restarted_world_def new_monitor_def raised_position_def
          btc_position_def)
  have h2: "pos_status raised_position = Open"
    by (simp add: raised_position_def btc_position_def)
  have h3: "get_price (mon_symbol raised_monitor) (venue restarted_world) = (Inr 44100, ?c1)"
    by (simp add: raised_monitor_def restarted_world_def new_monitor_def raised_position_def
          btc_position_def venue_defs)
  have h4: "44100 \<le> mon_stop_loss_price raised_monitor"
    by (simp add: raised_monitor_def new_monitor_def raised_position_def btc_position_def)
  have h6: "mon_running raised_monitor"
    by (simp add: raised_monitor_def)
  obtain e w2 where h5: "execute_stop_loss 10 raised_monitor 44100 ?w1 = (Inl e, w2)"
    by (simp add: execute_stop_loss_def raised_monitor_def restarted_world_def
          raised_position_def new_monitor_def btc_position_def venue_defs Let_def)
  have st: "map pos_status (positions (store restarted_world)) = [Open]"
    by (simp add: restarted_world_def raised_position_def btc_position_def)
  from failed_stop_loss_retries [OF h1 h2 h3 h4 h5 h6, of "[20]"] h1 h2 h3 h4 h5 h6 st
  show ?thesis
    by (simp add: execute_stop_loss_failure [OF h5])
qed

section \<open>The status of a position\<close>







lemma apply_updates_id [simp]: "pos_id (apply_updates now u us p) = pos_id (u p)"
  by (simp add: apply_updates_def Let_def)

lemma apply_updates_status [simp]: "pos_status (apply_updates now u us p) = pos_status (u p)"
  by (simp add: apply_updates_def Let_def)

















end
